theory Spec2Isabelle
  imports Complex_Main "HOL-Library.Sublist"
begin

section \<open>The hosted data store, as the client sees it\<close>

text \<open>
  The application is a browser client of a hosted relational store. Every handler of the
  pages awaits calls of the store's client library and branches on the error each call
  returns. The library and the store are not part of the repository; what follows is the
  interface the pages rely on: rows of the collections, the calls the pages issue, and for
  each call either an error or its effect.

  A JavaScript \<^verbatim>\<open>number\<close> is modelled by a real (exact arithmetic, no rounding, no
  NaN); a date column by the number of its calendar day; a timestamp by an integer.
\<close>

type_synonym number = real
type_synonym date = int
type_synonym timestamp = int

text \<open>The error object of a response: \<^verbatim>\<open>error.code\<close>, \<^verbatim>\<open>error.message\<close>,
  \<^verbatim>\<open>error.status\<close>.\<close>

record error =
  err_code :: string
  err_message :: string
  err_status :: "int option"

text \<open>\<^verbatim>\<open>interface UserProfile\<close>, \<^verbatim>\<open>interface User extends SupabaseUser\<close>,
  \<^verbatim>\<open>interface Room\<close>, \<^verbatim>\<open>interface Booking\<close> of src/lib/supabase.ts. The pages
  query the date columns of a booking as \<^verbatim>\<open>check_in_date\<close> and \<^verbatim>\<open>check_out_date\<close>.\<close>

record profile =
  pr_id :: string
  pr_email :: string
  first_name :: string
  last_name :: string
  role :: string

record user =
  u_id :: string
  u_email :: string
  u_profile :: profile

record room =
  r_id :: string
  r_number :: string
  r_type :: string
  price_per_night :: number
  capacity :: number
  r_status :: string
  r_floor :: int

record booking =
  b_id :: nat
  b_room_id :: string
  b_guest_id :: string
  check_in_date :: date
  check_out_date :: date
  b_status :: string
  total_price :: number
  b_created_at :: timestamp

text \<open>\<^verbatim>\<open>interface MaintenanceRequest\<close>: the row as stored, and the object the guest page
  inserts (the store assigns the id).\<close>

record maintenance_insert =
  m_room_id :: string
  m_guest_id :: "string option"
  m_title :: string
  m_description :: string
  m_priority :: string
  m_status :: string
  m_created_at :: timestamp
  m_updated_at :: timestamp

record maintenance_request = maintenance_insert +
  m_id :: nat

text \<open>\<^verbatim>\<open>interface MenuItem\<close>, \<^verbatim>\<open>interface CartItem extends MenuItem\<close> and the
  \<^verbatim>\<open>orderData\<close> object of the food-order page.\<close>

record menu_item =
  mi_id :: nat
  mi_name :: string
  mi_description :: string
  price :: number
  category :: string
  available :: bool

record cart_item = menu_item +
  quantity :: number
  special_instructions :: "string option"

record order_item =
  item_id :: nat
  oi_quantity :: number
  oi_special_instructions :: "string option"

record food_order_insert =
  fo_guest_id :: string
  fo_room_id :: string
  fo_items :: "order_item list"
  total_amount :: number
  fo_status :: string
  payment_status :: string
  payment_method :: string

record food_order = food_order_insert +
  fo_id :: nat

text \<open>The six named parameters of the remote procedure \<^verbatim>\<open>book_room\<close>. The total is
  absent when the computation of the page yields no number.\<close>

record book_room_params =
  p_room_id :: string
  p_guest_id :: "string option"
  p_check_in_date :: string
  p_check_out_date :: string
  p_number_of_guests :: number
  p_total_price :: "number option"

record backend =
  profiles :: "profile list"
  rooms :: "room list"
  bookings :: "booking list"
  maintenance_requests :: "maintenance_request list"
  food_orders :: "food_order list"

subsection \<open>Calls\<close>

text \<open>
  One constructor for each kind of call the pages issue:
  \<^verbatim>\<open>from(t).select(..)\<close>, \<^verbatim>\<open>from(t).insert([row])\<close>,
  \<^verbatim>\<open>from(t).update(patch).eq('id', key)\<close>, \<^verbatim>\<open>rpc(name, params)\<close>, and the three calls
  of the authentication service.
\<close>

datatype key = NumKey nat | StrKey string

datatype payload =
    StatusPatch string
  | StatusTimePatch string timestamp
  | MaintenanceRow maintenance_insert
  | FoodOrderRow food_order_insert

datatype call =
    Select string
  | Insert string payload
  | Update string payload key
  | Rpc string book_room_params
  | AuthGetSession
  | AuthGetUser
  | AuthSignOut

text \<open>What the store answers: for each call, an error or nothing. A call answered with an
  error has no effect on the store.\<close>

type_synonym outcomes = "call \<Rightarrow> error option"

definition fresh_id :: "nat list \<Rightarrow> nat" where
  "fresh_id ids = Suc (fold max ids 0)"

text \<open>The effect of a call the store performs. An update applies the patch to every row
  whose id equals the key; an insert appends the row under a fresh id.\<close>

definition store_apply :: "backend \<Rightarrow> call \<Rightarrow> backend" where
  "store_apply db c =
     (case c of
        Update t (StatusPatch s) (NumKey i) \<Rightarrow>
          (if t = ''bookings'' then
             db\<lparr>bookings := map (\<lambda>b. if b_id b = i then b\<lparr>b_status := s\<rparr> else b) (bookings db)\<rparr>
           else db)
      | Update t (StatusPatch s) (StrKey i) \<Rightarrow>
          (if t = ''rooms'' then
             db\<lparr>rooms := map (\<lambda>r. if r_id r = i then r\<lparr>r_status := s\<rparr> else r) (rooms db)\<rparr>
           else db)
      | Update t (StatusTimePatch s u) (NumKey i) \<Rightarrow>
          (if t = ''maintenance_requests'' then
             db\<lparr>maintenance_requests :=
                  map (\<lambda>m. if m_id m = i then m\<lparr>m_status := s, m_updated_at := u\<rparr> else m)
                    (maintenance_requests db)\<rparr>
           else db)
      | Insert t (MaintenanceRow r) \<Rightarrow>
          (if t = ''maintenance_requests'' then
             db\<lparr>maintenance_requests := maintenance_requests db @
                  [maintenance_insert.extend r
                     (maintenance_request.fields (fresh_id (map m_id (maintenance_requests db))))]\<rparr>
           else db)
      | Insert t (FoodOrderRow r) \<Rightarrow>
          (if t = ''food_orders'' then
             db\<lparr>food_orders := food_orders db @
                  [food_order_insert.extend r
                     (food_order.fields (fresh_id (map fo_id (food_orders db))))]\<rparr>
           else db)
      | _ \<Rightarrow> db)"

text \<open>The response of a query: the error the store answers with, or the rows.\<close>

definition respond :: "outcomes \<Rightarrow> call \<Rightarrow> error + 'a \<Rightarrow> error + 'a" where
  "respond out c r = (case out c of Some e \<Rightarrow> Inl e | None \<Rightarrow> r)"

text \<open>\<^verbatim>\<open>.single()\<close>: exactly one row, or the error with code PGRST116 (the code
  the booking page tests for, "no rows returned").\<close>

definition no_rows :: error where
  "no_rows = \<lparr>err_code = ''PGRST116'',
              err_message = ''JSON object requested, multiple (or no) rows returned'',
              err_status = None\<rparr>"

definition single :: "'a list \<Rightarrow> error + 'a" where
  "single rs = (case rs of [x] \<Rightarrow> Inr x | _ \<Rightarrow> Inl no_rows)"

text \<open>\<^verbatim>\<open>.order(column, { ascending: false })\<close> and \<^verbatim>\<open>.limit(n)\<close>.\<close>

definition order_desc :: "('a \<Rightarrow> int) \<Rightarrow> 'a list \<Rightarrow> 'a list" where
  "order_desc f rs = rev (sort_key f rs)"

definition limit :: "nat \<Rightarrow> 'a list \<Rightarrow> 'a list" where
  "limit n rs = take n rs"

text \<open>\<^verbatim>\<open>e.message || fallback\<close>\<close>

definition message_or :: "error \<Rightarrow> string \<Rightarrow> string" where
  "message_or e fallback = (if err_message e = [] then fallback else err_message e)"


section \<open>Admin: booking requests (the \<^verbatim>\<open>BookRequests\<close> page)\<close>

text \<open>The state of the component: \<^verbatim>\<open>requests\<close>, \<^verbatim>\<open>loading\<close>, \<^verbatim>\<open>error\<close>. A request
  is a booking row (the embedded room and profile are only displayed).\<close>

record book_requests_state =
  br_requests :: "booking list"
  br_loading :: bool
  br_error :: string

text \<open>
  \<^verbatim>\<open>fetchBookRequests\<close>: the pending bookings, newest first; on an error the message is
  shown and the list is kept.
\<close>

definition fetchBookRequests ::
  "outcomes \<Rightarrow> backend \<Rightarrow> book_requests_state \<Rightarrow> book_requests_state \<times> call list" where
  "fetchBookRequests out db st =
     (let c = Select ''bookings'' in
      case respond out c
             (Inr (order_desc b_created_at (filter (\<lambda>b. b_status b = ''pending'') (bookings db)))) of
        Inl e \<Rightarrow>
          (st\<lparr>br_error := message_or e ''Error fetching booking requests'', br_loading := False\<rparr>, [c])
      | Inr data \<Rightarrow> (st\<lparr>br_requests := data, br_loading := False\<rparr>, [c]))"

text \<open>The \<^verbatim>\<open>catch\<close> block of \<^verbatim>\<open>handleRequestAction\<close>, followed by its \<^verbatim>\<open>finally\<close>.\<close>

definition request_action_failed :: "book_requests_state \<Rightarrow> string \<Rightarrow> error \<Rightarrow> book_requests_state" where
  "request_action_failed st status e =
     st\<lparr>br_error := ''Error '' @ (if status = ''approved'' then ''approving'' else ''rejecting'')
                       @ '' request: '' @ err_message e,
        br_loading := False\<rparr>"

text \<open>
  \<^verbatim>\<open>
  async function handleRequestAction(bookingId: number, status: 'approved' | 'rejected') {
    try {
      setLoading(true)
      const { error: bookingError } = await supabase
        .from('bookings').update({ status }).eq('id', bookingId)
      if (bookingError) throw bookingError
      // If approved, update room status to occupied
      if (status === 'approved') {
        const booking = requests.find(r => r.id === bookingId)
        if (booking) {
          const { error: roomError } = await supabase
            .from('rooms').update({ status: 'occupied' }).eq('id', booking.room_id)
          if (roomError) throw roomError
        }
      }
      await fetchBookRequests()
    } catch (error: any) { setError(`Error ${..} request: ${error.message}`) }
    finally { setLoading(false) }
  }
  \<close>
  The result is the store after the handler, the state of the component, and the calls
  issued, in order.
\<close>

definition handleRequestAction ::
  "outcomes \<Rightarrow> backend \<Rightarrow> book_requests_state \<Rightarrow> nat \<Rightarrow> string
     \<Rightarrow> backend \<times> book_requests_state \<times> call list" where
  "handleRequestAction out db st bookingId status =
     (let st1 = st\<lparr>br_loading := True\<rparr>;
          c1 = Update ''bookings'' (StatusPatch status) (NumKey bookingId)
      in case out c1 of
           Some bookingError \<Rightarrow> (db, request_action_failed st1 status bookingError, [c1])
         | None \<Rightarrow>
             (let db1 = store_apply db c1 in
              case (if status = ''approved''
                    then find (\<lambda>r. b_id r = bookingId) (br_requests st) else None) of
                Some booking \<Rightarrow>
                  (let c2 = Update ''rooms'' (StatusPatch ''occupied'') (StrKey (b_room_id booking))
                   in case out c2 of
                        Some roomError \<Rightarrow> (db1, request_action_failed st1 status roomError, [c1, c2])
                      | None \<Rightarrow>
                          (let db2 = store_apply db1 c2;
                               (st2, cs) = fetchBookRequests out db2 st1
                           in (db2, st2\<lparr>br_loading := False\<rparr>, [c1, c2] @ cs)))
              | None \<Rightarrow>
                  (let (st2, cs) = fetchBookRequests out db1 st1
                   in (db1, st2\<lparr>br_loading := False\<rparr>, c1 # cs))))"

section \<open>Guest: booking a room (src/pages/guest/BookRoom.tsx)\<close>

text \<open>\<^verbatim>\<open>interface ActiveBooking\<close> and the state of the component.\<close>

record active_booking =
  ab_id :: nat
  ab_check_in_date :: date
  ab_check_out_date :: date
  ab_status :: string
  ab_room :: "room option"

record book_room_state =
  bk_rooms :: "room list"
  bk_loading :: bool
  bk_error :: string
  checkInDate :: string
  checkOutDate :: string
  numberOfGuests :: number
  activeBooking :: "active_booking option"

text \<open>The initial values of the \<^verbatim>\<open>useState\<close> hooks.\<close>

definition BookRoom_initial :: book_room_state where
  "BookRoom_initial =
     \<lparr>bk_rooms = [], bk_loading = True, bk_error = [], checkInDate = [], checkOutDate = [],
      numberOfGuests = 1, activeBooking = None\<rparr>"

text \<open>\<^verbatim>\<open>fetchAvailableRooms\<close>: the rooms whose status is \<^verbatim>\<open>available\<close>, ordered by
  floor (the secondary order by room number is not represented).\<close>

definition fetchAvailableRooms ::
  "outcomes \<Rightarrow> backend \<Rightarrow> book_room_state \<Rightarrow> book_room_state \<times> call list" where
  "fetchAvailableRooms out db st =
     (let st1 = st\<lparr>bk_error := []\<rparr>; c = Select ''rooms'' in
      case respond out c
             (Inr (sort_key r_floor (filter (\<lambda>r. r_status r = ''available'') (rooms db)))) of
        Inl e \<Rightarrow> (st1\<lparr>bk_error := ''Failed to load available rooms. Please try again later.''\<rparr>, [c])
      | Inr data \<Rightarrow> (st1\<lparr>bk_rooms := data\<rparr>, [c]))"

text \<open>The query of \<^verbatim>\<open>checkActiveBooking\<close>:
  \<^verbatim>\<open>.eq('guest_id', user?.id).eq('status', 'approved').gte('check_out_date', today)
  .order('check_in_date', { ascending: false }).limit(1).single()\<close>.
  An absent user id matches no row.\<close>

definition active_booking_query :: "backend \<Rightarrow> user option \<Rightarrow> date \<Rightarrow> error + booking" where
  "active_booking_query db usr today =
     single (limit 1 (order_desc check_in_date
       (filter (\<lambda>b. Some (b_guest_id b) = map_option u_id usr \<and> b_status b = ''approved''
                     \<and> today \<le> check_out_date b)
          (bookings db))))"

text \<open>
  \<^verbatim>\<open>
  const checkActiveBooking = async () => {
    try {
      setLoading(true)
      const { data, error } = await supabase.from('bookings'). ... .single()
      if (error && error.code !== 'PGRST116') throw error
      if (data) { ...; setActiveBooking(booking) }
      else { await fetchAvailableRooms() }
    } catch (error) {
      setError('Failed to check current booking status')
      await fetchAvailableRooms()
    } finally { setLoading(false) }
  }
  \<close>
  \<^verbatim>\<open>today\<close> is the day of \<^verbatim>\<open>new Date().toISOString().split('T')[0]\<close>.
\<close>

definition checkActiveBooking ::
  "outcomes \<Rightarrow> backend \<Rightarrow> user option \<Rightarrow> date \<Rightarrow> book_room_state \<Rightarrow> book_room_state \<times> call list" where
  "checkActiveBooking out db usr today st =
     (let st1 = st\<lparr>bk_loading := True\<rparr>; c = Select ''bookings'' in
      case respond out c (active_booking_query db usr today) of
        Inl e \<Rightarrow>
          (if err_code e \<noteq> ''PGRST116'' then
             (let (st2, cs) =
                    fetchAvailableRooms out db (st1\<lparr>bk_error := ''Failed to check current booking status''\<rparr>)
              in (st2\<lparr>bk_loading := False\<rparr>, c # cs))
           else
             (let (st2, cs) = fetchAvailableRooms out db st1
              in (st2\<lparr>bk_loading := False\<rparr>, c # cs)))
      | Inr bookingData \<Rightarrow>
          (st1\<lparr>activeBooking :=
                 Some \<lparr>ab_id = b_id bookingData,
                       ab_check_in_date = check_in_date bookingData,
                       ab_check_out_date = check_out_date bookingData,
                       ab_status = b_status bookingData,
                       ab_room = find (\<lambda>r. r_id r = b_room_id bookingData) (rooms db)\<rparr>,
               bk_loading := False\<rparr>, [c]))"

text \<open>What the component renders: the spinner while loading, the notice
  "You Already Have an Active Booking" when \<^verbatim>\<open>activeBooking\<close> is set, and otherwise the
  form with the "Book Now" buttons, the only place \<^verbatim>\<open>handleBookRoom\<close> is called from.\<close>

datatype book_room_view = LoadingSpinner | ActiveBookingNotice | BookingForm

definition BookRoom_view :: "book_room_state \<Rightarrow> book_room_view" where
  "BookRoom_view st =
     (if bk_loading st then LoadingSpinner
      else if activeBooking st \<noteq> None then ActiveBookingNotice
      else BookingForm)"

text \<open>
  \<^verbatim>\<open>new Date(s).getTime()\<close> is the platform's: a parameter, giving the milliseconds
  of a date string, or nothing for an invalid date. So is the conversion of a number to
  the string shown in a message.
  \<^verbatim>\<open>
  const calculateTotalPrice = (pricePerNight: number, checkIn: string, checkOut: string) => {
    const start = new Date(checkIn)
    const end = new Date(checkOut)
    const nights = Math.ceil((end.getTime() - start.getTime()) / (1000 * 60 * 60 * 24))
    return pricePerNight * nights
  }
  \<close>
\<close>

type_synonym date_parser = "string \<Rightarrow> int option"
type_synonym number_printer = "number \<Rightarrow> string"

definition nights :: "int \<Rightarrow> int \<Rightarrow> int" where
  "nights start_ms end_ms = \<lceil>(of_int (end_ms - start_ms) :: real) / (1000 * 60 * 60 * 24)\<rceil>"

definition calculateTotalPrice :: "date_parser \<Rightarrow> number \<Rightarrow> string \<Rightarrow> string \<Rightarrow> number option" where
  "calculateTotalPrice getTime pricePerNight checkIn checkOut =
     (case (getTime checkIn, getTime checkOut) of
        (Some start_ms, Some end_ms) \<Rightarrow> Some (pricePerNight * of_int (nights start_ms end_ms))
      | _ \<Rightarrow> None)"

text \<open>\<^verbatim>\<open>new Date(a) >= new Date(b)\<close>: false when either date is invalid.\<close>

definition date_ge :: "date_parser \<Rightarrow> string \<Rightarrow> string \<Rightarrow> bool" where
  "date_ge getTime a b =
     (case (getTime a, getTime b) of (Some x, Some y) \<Rightarrow> y \<le> x | _ \<Rightarrow> False)"

text \<open>
  The stored procedure \<^verbatim>\<open>book_room\<close> runs in the store and is not part of the
  repository: a parameter, answering with an error or with the store after the booking.
  \<^verbatim>\<open>
  const handleBookRoom = async (room: Room) => {
    try {
      if (!checkInDate || !checkOutDate) { setError('Please select ..'); return }
      if (new Date(checkInDate) >= new Date(checkOutDate)) { setError('Check-out ..'); return }
      if (numberOfGuests > room.capacity) { setError(`This room's capacity ..`); return }
      setLoading(true); setError('')
      const { error: bookingError } = await supabase.rpc('book_room', { p_room_id: room.id, .. })
      if (bookingError) throw bookingError
      await fetchAvailableRooms()
      setError('Booking successful! ..'); setCheckInDate(''); setCheckOutDate(''); setNumberOfGuests(1)
    } catch (error: any) { setError(error.message || 'Failed to book the room. Please try again.') }
    finally { setLoading(false) }
  }
  \<close>
  A \<^verbatim>\<open>return\<close> inside the \<^verbatim>\<open>try\<close> block runs the \<^verbatim>\<open>finally\<close> block too.
\<close>

type_synonym stored_procedure = "book_room_params \<Rightarrow> backend \<Rightarrow> error + backend"

definition book_room_call ::
  "date_parser \<Rightarrow> user option \<Rightarrow> book_room_state \<Rightarrow> room \<Rightarrow> book_room_params" where
  "book_room_call getTime usr st rm =
     \<lparr>p_room_id = r_id rm,
      p_guest_id = map_option u_id usr,
      p_check_in_date = checkInDate st,
      p_check_out_date = checkOutDate st,
      p_number_of_guests = numberOfGuests st,
      p_total_price = calculateTotalPrice getTime (price_per_night rm) (checkInDate st) (checkOutDate st)\<rparr>"

definition handleBookRoom ::
  "outcomes \<Rightarrow> stored_procedure \<Rightarrow> date_parser \<Rightarrow> number_printer \<Rightarrow> backend \<Rightarrow> user option
     \<Rightarrow> book_room_state \<Rightarrow> room \<Rightarrow> backend \<times> book_room_state \<times> call list" where
  "handleBookRoom out book_room getTime toString db usr st rm =
     (if checkInDate st = [] \<or> checkOutDate st = [] then
        (db, st\<lparr>bk_error := ''Please select check-in and check-out dates'', bk_loading := False\<rparr>, [])
      else if date_ge getTime (checkInDate st) (checkOutDate st) then
        (db, st\<lparr>bk_error := ''Check-out date must be after check-in date'', bk_loading := False\<rparr>, [])
      else if numberOfGuests st > capacity rm then
        (db, st\<lparr>bk_error := ''This room's capacity is '' @ toString (capacity rm) @ '' guests'', bk_loading := False\<rparr>, [])
      else
        (let st1 = st\<lparr>bk_loading := True, bk_error := []\<rparr>;
             params = book_room_call getTime usr st rm;
             c = Rpc ''book_room'' params
         in case book_room params db of
              Inl bookingError \<Rightarrow>
                (db, st1\<lparr>bk_error := message_or bookingError ''Failed to book the room. Please try again.'',
                         bk_loading := False\<rparr>, [c])
            | Inr db1 \<Rightarrow>
                (let (st2, cs) = fetchAvailableRooms out db1 st1
                 in (db1,
                     st2\<lparr>bk_error := ''Booking successful! Check your bookings page for details.'',
                         checkInDate := [], checkOutDate := [], numberOfGuests := 1,
                         bk_loading := False\<rparr>,
                     c # cs))))"


section \<open>Session restoration (\<^verbatim>\<open>getUser\<close> of src/lib/supabase.ts, the \<^verbatim>\<open>useAuth\<close> hook)\<close>

text \<open>
  The authentication service answers \<^verbatim>\<open>auth.getSession()\<close> with an error or with the
  session, if there is one (represented by its access token), and \<^verbatim>\<open>auth.getUser()\<close>
  with an error or with the identity, if there is one.
\<close>

record auth_service =
  getSession :: "error + string option"
  authGetUser :: "error + (string \<times> string) option"

text \<open>\<^verbatim>\<open>localStorage\<close>: \<^verbatim>\<open>getItem\<close> is application, \<^verbatim>\<open>removeItem\<close> is below.\<close>

type_synonym storage = "string \<rightharpoonup> string"

definition removeItem :: "storage \<Rightarrow> string \<Rightarrow> storage" where
  "removeItem ls k = ls(k := None)"

text \<open>\<^verbatim>\<open>error.message?.includes('Invalid Refresh Token')\<close>\<close>

definition message_includes :: "string \<Rightarrow> string \<Rightarrow> bool" where
  "message_includes s t = sublist t s"

text \<open>
  \<^verbatim>\<open>
  export async function getUser(): Promise<User | null> {
    try {
      const storedSession = localStorage.getItem('hotel_auth_token')
      if (!storedSession) return null
      const { data: { session }, error: sessionError } = await supabase.auth.getSession()
      if (sessionError) { localStorage.removeItem('hotel_auth_token'); return null }
      if (!session) { localStorage.removeItem('hotel_auth_token'); return null }
      const { data: { user }, error } = await supabase.auth.getUser()
      if (error) { localStorage.removeItem('hotel_auth_token'); return null }
      if (user) {
        const { data: profile, error: profileError } = await supabase
          .from('profiles').select('*').eq('id', user.id).single()
        if (profileError) throw profileError
        return { ...user, profile: profile as UserProfile } as User
      }
    } catch (error: any) {
      // If we get a 401 or invalid refresh token, clear the session
      if (error.status === 401 || error.message?.includes('Invalid Refresh Token')) {
        localStorage.removeItem('hotel_auth_token')
        await supabase.auth.signOut()
      }
      return null
    }
    return null
  }
  \<close>
  The result is the user or nothing, the storage after the call, and the calls issued.
\<close>

definition getUser ::
  "auth_service \<Rightarrow> outcomes \<Rightarrow> backend \<Rightarrow> storage \<Rightarrow> user option \<times> storage \<times> call list" where
  "getUser au out db ls =
     (case ls ''hotel_auth_token'' of
        None \<Rightarrow> (None, ls, [])
      | Some storedSession \<Rightarrow>
          if storedSession = [] then (None, ls, [])
          else
            (case getSession au of
               Inl sessionError \<Rightarrow> (None, removeItem ls ''hotel_auth_token'', [AuthGetSession])
             | Inr None \<Rightarrow> (None, removeItem ls ''hotel_auth_token'', [AuthGetSession])
             | Inr (Some session) \<Rightarrow>
                 (case authGetUser au of
                    Inl e \<Rightarrow> (None, removeItem ls ''hotel_auth_token'', [AuthGetSession, AuthGetUser])
                  | Inr None \<Rightarrow> (None, ls, [AuthGetSession, AuthGetUser])
                  | Inr (Some (uid, mail)) \<Rightarrow>
                      (let c = Select ''profiles'' in
                       case respond out c (single (filter (\<lambda>p. pr_id p = uid) (profiles db))) of
                         Inl profileError \<Rightarrow>
                           (if err_status profileError = Some 401
                               \<or> message_includes (err_message profileError) ''Invalid Refresh Token''
                            then (None, removeItem ls ''hotel_auth_token'',
                                  [AuthGetSession, AuthGetUser, c, AuthSignOut])
                            else (None, ls, [AuthGetSession, AuthGetUser, c]))
                       | Inr prof \<Rightarrow>
                           (Some \<lparr>u_id = uid, u_email = mail, u_profile = prof\<rparr>, ls,
                            [AuthGetSession, AuthGetUser, c])))))"

text \<open>The state of the hook, \<^verbatim>\<open>user\<close> and \<^verbatim>\<open>loading\<close>, and \<^verbatim>\<open>checkUser\<close>, which
  runs once when the application starts:
  \<^verbatim>\<open>const user = await getUser(); setUser(user)\<close>, and finally
  \<^verbatim>\<open>setLoading(false)\<close>.\<close>

record auth_state =
  as_user :: "user option"
  as_loading :: bool

definition useAuth_initial :: auth_state where
  "useAuth_initial = \<lparr>as_user = None, as_loading = True\<rparr>"

definition checkUser ::
  "auth_service \<Rightarrow> outcomes \<Rightarrow> backend \<Rightarrow> storage \<Rightarrow> auth_state \<Rightarrow> auth_state \<times> storage \<times> call list" where
  "checkUser au out db ls st =
     (let (usr, ls1, cs) = getUser au out db ls
      in (st\<lparr>as_user := usr, as_loading := False\<rparr>, ls1, cs))"

section \<open>Route gating (the \<^verbatim>\<open>ProtectedRoute\<close> component, the route table of \<^verbatim>\<open>App\<close>)\<close>

text \<open>
  \<^verbatim>\<open>
  export default function ProtectedRoute({ children, requireAdmin = false }) {
    const { user, loading } = useAuth()
    if (loading) return <spinner/>
    if (!user) return <Navigate to="/login" replace />
    // Check for admin access if required
    if (requireAdmin && user.profile.role !== 'admin')
      return <Navigate to="/guest/dashboard" replace />
    // Check for guest trying to access admin routes
    if (!requireAdmin && user.profile.role === 'admin')
      return <Navigate to="/admin/dashboard" replace />
    return <>{children}</>
  }
  \<close>
  The component takes no path: it is told by \<^verbatim>\<open>requireAdmin\<close> which area it guards.
  No route of the route table below is wrapped in it.
\<close>

datatype element = Spinner | Navigate string | Children

definition ProtectedRoute :: "auth_state \<Rightarrow> bool \<Rightarrow> element" where
  "ProtectedRoute au requireAdmin =
     (if as_loading au then Spinner
      else case as_user au of
             None \<Rightarrow> Navigate ''/login''
           | Some usr \<Rightarrow>
               if requireAdmin \<and> role (u_profile usr) \<noteq> ''admin'' then Navigate ''/guest/dashboard''
               else if \<not> requireAdmin \<and> role (u_profile usr) = ''admin'' then Navigate ''/admin/dashboard''
               else Children)"


text \<open>
  The route table of the application (\<^verbatim>\<open>App.tsx\<close>, carried in src/lib/supabase.ts):
  \<^verbatim>\<open>
  export default function App() {
    const { user, loading } = useAuth()
    if (loading) return <spinner/>
    return (
      <Routes>
        <Route path="/" element={<Landing />} />
        <Route path="/login"
          element={user ? <Navigate to={`/${user.profile.role}/dashboard`} replace /> : <Login />} />
        <Route path="/signup"
          element={user ? <Navigate to={`/${user.profile.role}/dashboard`} replace /> : <Signup />} />
        <Route path="/admin"
          element={user?.profile.role === 'admin' ? <AdminLayout /> : <Navigate to="/" replace />}>
          <Route index element={<Navigate to="dashboard" replace />} />
          <Route path="dashboard" element={<Dashboard />} />  .. rooms, guests, book-requests,
          maintenance, analytics
        </Route>
        <Route path="/guest"
          element={user?.profile.role === 'guest' ? <GuestLayout /> : <Navigate to="/" replace />}>
          <Route index element={<Navigate to="dashboard" replace />} />
          <Route path="dashboard" element={<GuestDashboard />} />  .. profile, book-room, bookings,
          my-room, maintenance, food-order, orders
        </Route>
        <Route path="*" element={<Navigate to="/" replace />} />
      </Routes>)
  }
  \<close>
  The requested path is given by its segments: \<^verbatim>\<open>/admin/rooms\<close> is
  \<open>[''admin'', ''rooms'']\<close>, \<^verbatim>\<open>/\<close> is \<open>[]\<close>. A path matches a route of an area when it
  is the path of the area followed by the path of one of its children, or the path of the
  area alone (the index route); a path that matches no route falls to the route \<^verbatim>\<open>*\<close>.
  The element of a layout is rendered with the child in its outlet; the index child
  navigates to the dashboard of the area.
\<close>

definition admin_routes :: "string list" where
  "admin_routes = [''dashboard'', ''rooms'', ''guests'', ''book-requests'', ''maintenance'', ''analytics'']"

definition guest_routes :: "string list" where
  "guest_routes = [''dashboard'', ''profile'', ''book-room'', ''bookings'', ''my-room'', ''maintenance'',
                   ''food-order'', ''orders'']"

datatype route_match = NoMatch | IndexRoute | ChildRoute string

definition match_area :: "string \<Rightarrow> string list \<Rightarrow> string list \<Rightarrow> route_match" where
  "match_area area children location =
     (case location of
        [a] \<Rightarrow> if a = area then IndexRoute else NoMatch
      | [a, t] \<Rightarrow> if a = area \<and> t \<in> set children then ChildRoute t else NoMatch
      | _ \<Rightarrow> NoMatch)"

definition admin_path :: "string list \<Rightarrow> bool" where
  "admin_path location = (match_area ''admin'' admin_routes location \<noteq> NoMatch)"

definition guest_path :: "string list \<Rightarrow> bool" where
  "guest_path location = (match_area ''guest'' guest_routes location \<noteq> NoMatch)"

text \<open>\<^verbatim>\<open>user?.profile.role\<close>\<close>

definition role_of :: "auth_state \<Rightarrow> string option" where
  "role_of au = map_option (\<lambda>usr. role (u_profile usr)) (as_user au)"

datatype app_element =
    AppSpinner
  | Page string
  | Layout string string
  | NavigateTo string

text \<open>The element of the route of an area: the layout for the role of the area, the
  redirect to \<^verbatim>\<open>/\<close> for anyone else.\<close>

definition area_element :: "auth_state \<Rightarrow> string \<Rightarrow> string \<Rightarrow> route_match \<Rightarrow> app_element" where
  "area_element au area layout m =
     (if role_of au = Some area then
        (case m of
           ChildRoute t \<Rightarrow> Layout layout t
         | _ \<Rightarrow> NavigateTo (''/'' @ area @ ''/dashboard''))
      else NavigateTo ''/'')"

definition public_element :: "auth_state \<Rightarrow> string \<Rightarrow> app_element" where
  "public_element au page =
     (case as_user au of
        Some usr \<Rightarrow> NavigateTo (''/'' @ role (u_profile usr) @ ''/dashboard'')
      | None \<Rightarrow> Page page)"

definition App :: "auth_state \<Rightarrow> string list \<Rightarrow> app_element" where
  "App au location =
     (if as_loading au then AppSpinner
      else if location = [] then Page ''Landing''
      else if location = [''login''] then public_element au ''Login''
      else if location = [''signup''] then public_element au ''Signup''
      else if admin_path location
        then area_element au ''admin'' ''AdminLayout'' (match_area ''admin'' admin_routes location)
      else if guest_path location
        then area_element au ''guest'' ''GuestLayout'' (match_area ''guest'' guest_routes location)
      else NavigateTo ''/'')"

section \<open>Maintenance requests\<close>

subsection \<open>Guest: submitting a request (the \<^verbatim>\<open>MaintenanceRequest\<close> page)\<close>

record maintenance_form =
  f_title :: string
  f_description :: string
  f_priority :: string

record maintenance_page_state =
  mp_loading :: bool
  mp_error :: "string option"
  mp_success :: bool
  formData :: maintenance_form

text \<open>The \<^verbatim>\<open>catch\<close> and \<^verbatim>\<open>finally\<close> blocks of \<^verbatim>\<open>handleSubmit\<close>.\<close>

definition submit_failed :: "maintenance_page_state \<Rightarrow> string \<Rightarrow> maintenance_page_state" where
  "submit_failed st msg =
     st\<lparr>mp_error := Some (if msg = [] then ''Failed to submit maintenance request'' else msg),
        mp_loading := False\<rparr>"

text \<open>
  \<^verbatim>\<open>
  const handleSubmit = async (e: React.FormEvent) => {
    setLoading(true); setError(null); setSuccess(false)
    try {
      const { data: bookings, error: bookingError } = await supabase
        .from('bookings').select('room_id')
        .eq('guest_id', user?.id).eq('status', 'approved')
        .order('created_at', { ascending: false }).limit(1)
      if (bookingError) throw new Error('Failed to fetch booking information')
      if (!bookings || bookings.length === 0) throw new Error('No active booking found. ..')
      const booking = bookings[0]
      const { error: requestError } = await supabase.from('maintenance_requests').insert([{
          room_id: booking.room_id, guest_id: user?.id, title: formData.title,
          description: formData.description, priority: formData.priority, status: 'pending',
          created_at: new Date().toISOString(), updated_at: new Date().toISOString() }])
      if (requestError) throw new Error('Failed to create maintenance request')
      setSuccess(true); setFormData({ title: '', description: '', priority: 'medium' })
    } catch (error: any) { setError(error.message || 'Failed to submit maintenance request') }
    finally { setLoading(false) }
  }
  \<close>
\<close>

definition handleSubmit ::
  "outcomes \<Rightarrow> backend \<Rightarrow> user option \<Rightarrow> timestamp \<Rightarrow> maintenance_page_state
     \<Rightarrow> backend \<times> maintenance_page_state \<times> call list" where
  "handleSubmit out db usr now st =
     (let st1 = st\<lparr>mp_loading := True, mp_error := None, mp_success := False\<rparr>;
          c1 = Select ''bookings''
      in case respond out c1
                (Inr (limit 1 (order_desc b_created_at
                   (filter (\<lambda>b. Some (b_guest_id b) = map_option u_id usr \<and> b_status b = ''approved'')
                      (bookings db))))) of
           Inl bookingError \<Rightarrow> (db, submit_failed st1 ''Failed to fetch booking information'', [c1])
         | Inr [] \<Rightarrow>
             (db, submit_failed st1
                    ''No active booking found. Please make sure you have an approved booking.'', [c1])
         | Inr (booking # rest) \<Rightarrow>
             (let c2 = Insert ''maintenance_requests''
                         (MaintenanceRow
                            \<lparr>m_room_id = b_room_id booking,
                             m_guest_id = map_option u_id usr,
                             m_title = f_title (formData st),
                             m_description = f_description (formData st),
                             m_priority = f_priority (formData st),
                             m_status = ''pending'',
                             m_created_at = now,
                             m_updated_at = now\<rparr>)
              in case out c2 of
                   Some requestError \<Rightarrow>
                     (db, submit_failed st1 ''Failed to create maintenance request'', [c1, c2])
                 | None \<Rightarrow>
                     (store_apply db c2,
                      st1\<lparr>mp_success := True,
                          formData := \<lparr>f_title = [], f_description = [], f_priority = ''medium''\<rparr>,
                          mp_loading := False\<rparr>,
                      [c1, c2])))"

subsection \<open>Admin: advancing a request (src/pages/admin/MaintenanceRequests.tsx)\<close>

record maintenance_stats =
  st_total :: nat
  st_pending :: nat
  st_in_progress :: nat
  st_completed :: nat
  st_cancelled :: nat

record maintenance_admin_state =
  ma_requests :: "maintenance_request list"
  ma_loading :: bool
  ma_error :: "string option"
  ma_stats :: maintenance_stats

text \<open>\<^verbatim>\<open>fetchMaintenanceRequests\<close>: all requests, newest first, and the counts by status;
  on an error the message is shown and the list is emptied.\<close>

definition fetchMaintenanceRequests ::
  "outcomes \<Rightarrow> backend \<Rightarrow> maintenance_admin_state \<Rightarrow> maintenance_admin_state \<times> call list" where
  "fetchMaintenanceRequests out db st =
     (let st1 = st\<lparr>ma_loading := True, ma_error := None\<rparr>;
          c = Select ''maintenance_requests''
      in case respond out c (Inr (order_desc m_created_at (maintenance_requests db))) of
           Inl e \<Rightarrow>
             (st1\<lparr>ma_error := Some (message_or e ''Failed to fetch maintenance requests''),
                  ma_requests := [], ma_loading := False\<rparr>, [c])
         | Inr data \<Rightarrow>
             (st1\<lparr>ma_requests := data,
                  ma_stats :=
                    \<lparr>st_total = length data,
                     st_pending = length (filter (\<lambda>req. m_status req = ''pending'') data),
                     st_in_progress = length (filter (\<lambda>req. m_status req = ''in_progress'') data),
                     st_completed = length (filter (\<lambda>req. m_status req = ''completed'') data),
                     st_cancelled = length (filter (\<lambda>req. m_status req = ''cancelled'') data)\<rparr>,
                  ma_loading := False\<rparr>, [c]))"

text \<open>
  \<^verbatim>\<open>
  const handleUpdateStatus = async (id: number, newStatus: MaintenanceRequest['status']) => {
    try {
      setLoading(true); setError(null)
      const { error } = await supabase.from('maintenance_requests')
        .update({ status: newStatus, updated_at: new Date().toISOString() }).eq('id', id)
      if (error) throw error
      await fetchMaintenanceRequests()
    } catch (error: any) { setError(error.message || 'Failed to update ..') }
    finally { setLoading(false) }
  }
  \<close>
\<close>

definition handleUpdateStatus ::
  "outcomes \<Rightarrow> backend \<Rightarrow> timestamp \<Rightarrow> maintenance_admin_state \<Rightarrow> nat \<Rightarrow> string
     \<Rightarrow> backend \<times> maintenance_admin_state \<times> call list" where
  "handleUpdateStatus out db now st i newStatus =
     (let st1 = st\<lparr>ma_loading := True, ma_error := None\<rparr>;
          c = Update ''maintenance_requests'' (StatusTimePatch newStatus now) (NumKey i)
      in case out c of
           Some e \<Rightarrow>
             (db, st1\<lparr>ma_error := Some (message_or e ''Failed to update maintenance request status''),
                      ma_loading := False\<rparr>, [c])
         | None \<Rightarrow>
             (let db1 = store_apply db c;
                  (st2, cs) = fetchMaintenanceRequests out db1 st1
              in (db1, st2\<lparr>ma_loading := False\<rparr>, c # cs)))"

text \<open>The status of a request is changed with a \<^verbatim>\<open>select\<close> element whose options are
  the four values below; its \<^verbatim>\<open>onChange\<close> passes the chosen option's value, cast to
  \<^verbatim>\<open>MaintenanceRequest['status']\<close>, to \<^verbatim>\<open>handleUpdateStatus\<close> with the id of the
  request of the row.\<close>

definition status_options :: "string list" where
  "status_options = [''pending'', ''in_progress'', ''completed'', ''cancelled'']"

definition status_onChange ::
  "outcomes \<Rightarrow> backend \<Rightarrow> timestamp \<Rightarrow> maintenance_admin_state \<Rightarrow> maintenance_request \<Rightarrow> nat
     \<Rightarrow> (backend \<times> maintenance_admin_state \<times> call list) option" where
  "status_onChange out db now st request chosen =
     (if chosen < length status_options
      then Some (handleUpdateStatus out db now st (m_id request) (status_options ! chosen))
      else None)"

text \<open>The values of \<^verbatim>\<open>MaintenanceRequest['status']\<close>:
  \<^verbatim>\<open>'pending' | 'in_progress' | 'completed' | 'cancelled'\<close>.\<close>

definition enumerated_statuses :: "string set" where
  "enumerated_statuses = {''pending'', ''in_progress'', ''completed'', ''cancelled''}"

text \<open>The status a call writes to the collection of maintenance requests, if it writes
  one.\<close>

definition written_maintenance_status :: "call \<Rightarrow> string option" where
  "written_maintenance_status c =
     (case c of
        Insert t (MaintenanceRow r) \<Rightarrow> if t = ''maintenance_requests'' then Some (m_status r) else None
      | Update t (StatusPatch s) k \<Rightarrow> if t = ''maintenance_requests'' then Some s else None
      | Update t (StatusTimePatch s u) k \<Rightarrow> if t = ''maintenance_requests'' then Some s else None
      | _ \<Rightarrow> None)"

section \<open>Guest: food ordering (src/pages/guest/FoodOrder.tsx)\<close>

text \<open>
  \<^verbatim>\<open>
  const updateCartItemQuantity = (itemId: number, quantity: number) => {
    if (quantity === 0) {
      setCart(prevCart => prevCart.filter(item => item.id !== itemId))
    } else {
      setCart(prevCart =>
        prevCart.map(item => item.id === itemId ? { ...item, quantity } : item))
    }
  }
  \<close>
  The state update is applied to the previous cart, the first argument here.
\<close>

definition updateCartItemQuantity :: "cart_item list \<Rightarrow> nat \<Rightarrow> number \<Rightarrow> cart_item list" where
  "updateCartItemQuantity prevCart itemId qty =
     (if qty = 0 then filter (\<lambda>item. mi_id item \<noteq> itemId) prevCart
      else map (\<lambda>item. if mi_id item = itemId then item\<lparr>quantity := qty\<rparr> else item) prevCart)"

text \<open>\<^verbatim>\<open>cart.reduce((total, item) => total + (item.price * item.quantity), 0)\<close>\<close>

definition calculateTotal :: "cart_item list \<Rightarrow> number" where
  "calculateTotal cart = foldl (\<lambda>total item. total + price item * quantity item) 0 cart"

record food_order_state =
  cart :: "cart_item list"
  fo_error :: "string option"

text \<open>The query of \<^verbatim>\<open>handleCheckout\<close>:
  \<^verbatim>\<open>.select('.., room:rooms!inner(id, number)').eq('guest_id', user.id)
  .eq('status', 'approved').gte('check_out_date', today)
  .order('check_in_date', { ascending: false }).limit(1).single()\<close>.
  The inner join keeps a booking only with its room.\<close>

definition with_room :: "backend \<Rightarrow> booking \<Rightarrow> (booking \<times> room) option" where
  "with_room db b = map_option (Pair b) (find (\<lambda>r. r_id r = b_room_id b) (rooms db))"

definition checkout_booking_query :: "backend \<Rightarrow> string \<Rightarrow> date \<Rightarrow> error + booking \<times> room" where
  "checkout_booking_query db uid today =
     single (limit 1 (order_desc (\<lambda>(b, r). check_in_date b)
       (List.map_filter (with_room db)
          (filter (\<lambda>b. b_guest_id b = uid \<and> b_status b = ''approved'' \<and> today \<le> check_out_date b)
             (bookings db)))))"

text \<open>
  \<^verbatim>\<open>
  const handleCheckout = async () => {
    try {
      if (!user) throw new Error('Please sign in to place an order')
      const today = new Date().toISOString().split('T')[0];
      const { data: bookingData, error: bookingsError } = await supabase.from('bookings'). .. .single()
      if (bookingsError) throw new Error('Could not check your booking status')
      if (!bookingData) throw new Error('No active booking found. ..')
      const orderData = { guest_id: user.id, room_id: bookingData.room_id,
        items: cart.map(item => ({ item_id: item.id, quantity: item.quantity,
                                   special_instructions: item.special_instructions })),
        total_amount: calculateTotal(), status: 'pending', payment_status: 'pending',
        payment_method: 'room_charge' }
      const { error: orderError } = await supabase.from('food_orders').insert([orderData])
      if (orderError) throw new Error('Failed to place order. Please try again.')
      setCart([]); alert(`Order placed successfully! ..`); navigate('/guest/orders')
    } catch (error: any) { setError(error.message) }
  }
  \<close>
  A response of \<^verbatim>\<open>.single()\<close> carries a row or an error, so the test of
  \<^verbatim>\<open>!bookingData\<close> after the test of the error never fires. The result is the store,
  the state of the page, the calls issued, the text of the alert and the path navigated to.
\<close>

definition orderData :: "user \<Rightarrow> booking \<Rightarrow> cart_item list \<Rightarrow> food_order_insert" where
  "orderData usr bookingData items =
     \<lparr>fo_guest_id = u_id usr,
      fo_room_id = b_room_id bookingData,
      fo_items = map (\<lambda>item. \<lparr>item_id = mi_id item, oi_quantity = quantity item,
                               oi_special_instructions = special_instructions item\<rparr>) items,
      total_amount = calculateTotal items,
      fo_status = ''pending'',
      payment_status = ''pending'',
      payment_method = ''room_charge''\<rparr>"

definition handleCheckout ::
  "outcomes \<Rightarrow> backend \<Rightarrow> user option \<Rightarrow> date \<Rightarrow> food_order_state
     \<Rightarrow> backend \<times> food_order_state \<times> call list \<times> string option \<times> string option" where
  "handleCheckout out db usr_opt today st =
     (case usr_opt of
        None \<Rightarrow> (db, st\<lparr>fo_error := Some ''Please sign in to place an order''\<rparr>, [], None, None)
      | Some usr \<Rightarrow>
          (let c1 = Select ''bookings'' in
           case respond out c1 (checkout_booking_query db (u_id usr) today) of
             Inl bookingsError \<Rightarrow>
               (db, st\<lparr>fo_error := Some ''Could not check your booking status''\<rparr>, [c1], None, None)
           | Inr (bookingData, rm) \<Rightarrow>
               (let c2 = Insert ''food_orders'' (FoodOrderRow (orderData usr bookingData (cart st)))
                in case out c2 of
                     Some orderError \<Rightarrow>
                       (db, st\<lparr>fo_error := Some ''Failed to place order. Please try again.''\<rparr>,
                        [c1, c2], None, None)
                   | None \<Rightarrow>
                       (store_apply db c2, st\<lparr>cart := []\<rparr>, [c1, c2],
                        Some (''Order placed successfully! Your order will be delivered to Room ''
                                @ r_number rm),
                        Some ''/guest/orders''))))"

section \<open>Example inputs\<close>

text \<open>A cart with two different menu items.\<close>

definition example_cart :: "cart_item list" where
  "example_cart =
     [\<lparr>mi_id = 1, mi_name = ''Soup'', mi_description = ''Tomato soup'', price = 4.5,
       category = ''appetizer'', available = True, quantity = 2, special_instructions = None\<rparr>,
      \<lparr>mi_id = 2, mi_name = ''Tea'', mi_description = ''Green tea'', price = 3,
       category = ''beverage'', available = True, quantity = 1, special_instructions = None\<rparr>]"

text \<open>A store with room 101, available, and one pending booking of it by guest g1; the
  admin page listing that booking; a store that performs every call, and one that answers
  the update of the room with an error.\<close>

definition room_101 :: room where
  "room_101 = \<lparr>r_id = ''r101'', r_number = ''101'', r_type = ''Standard'',
               price_per_night = 100, capacity = 2, r_status = ''available'', r_floor = 1\<rparr>"

definition pending_booking :: booking where
  "pending_booking = \<lparr>b_id = 7, b_room_id = ''r101'', b_guest_id = ''g1'',
                      check_in_date = 20, check_out_date = 23, b_status = ''pending'',
                      total_price = 300, b_created_at = 5\<rparr>"

definition example_store :: backend where
  "example_store = \<lparr>profiles = [], rooms = [room_101], bookings = [pending_booking],
                    maintenance_requests = [], food_orders = []\<rparr>"

definition listing :: book_requests_state where
  "listing = \<lparr>br_requests = [pending_booking], br_loading = False, br_error = []\<rparr>"

definition all_succeed :: outcomes where
  "all_succeed = (\<lambda>c. None)"

definition server_error :: error where
  "server_error = \<lparr>err_code = ''500'', err_message = ''Internal Server Error'', err_status = Some 500\<rparr>"

definition room_update_fails :: outcomes where
  "room_update_fails =
     (\<lambda>c. case c of Update t p k \<Rightarrow> if t = ''rooms'' then Some server_error else None | _ \<Rightarrow> None)"

text \<open>The guest g1; the same booking once approved; a platform that reads two dates and
  prints a number; a stored procedure that books, and one that answers with an error; the
  booking form filled in by the guest, and the same form with the dates exchanged.\<close>

definition guest_g1 :: user where
  "guest_g1 = \<lparr>u_id = ''g1'', u_email = ''g1@example.org'',
               u_profile = \<lparr>pr_id = ''g1'', pr_email = ''g1@example.org'', first_name = ''Ada'',
                            last_name = ''Guest'', role = ''guest''\<rparr>\<rparr>"

definition approved_booking :: booking where
  "approved_booking = pending_booking\<lparr>b_status := ''approved''\<rparr>"

definition store_with_approved :: backend where
  "store_with_approved = example_store\<lparr>bookings := [approved_booking]\<rparr>"

definition example_getTime :: date_parser where
  "example_getTime s =
     (if s = ''2025-03-01'' then Some 1740787200000
      else if s = ''2025-03-04'' then Some 1741046400000
      else None)"

definition example_toString :: number_printer where
  "example_toString x = ''2''"

definition accepting_procedure :: stored_procedure where
  "accepting_procedure p db = Inr db"

definition rejecting_procedure :: stored_procedure where
  "rejecting_procedure p db = Inl server_error"

definition filled_form :: book_room_state where
  "filled_form = BookRoom_initial\<lparr>bk_loading := False, bk_rooms := [room_101],
                   checkInDate := ''2025-03-01'', checkOutDate := ''2025-03-04'', numberOfGuests := 2\<rparr>"

definition reversed_form :: book_room_state where
  "reversed_form = filled_form\<lparr>checkInDate := ''2025-03-04'', checkOutDate := ''2025-03-01''\<rparr>"

text \<open>An admin; a store with the profiles of both users; a browser storage holding a
  token; an authentication service that validates the session of the admin, and one that
  answers with an error.\<close>

definition admin_a1 :: user where
  "admin_a1 = \<lparr>u_id = ''a1'', u_email = ''a1@example.org'',
               u_profile = \<lparr>pr_id = ''a1'', pr_email = ''a1@example.org'', first_name = ''Bo'',
                            last_name = ''Admin'', role = ''admin''\<rparr>\<rparr>"

definition store_with_profiles :: backend where
  "store_with_profiles = example_store\<lparr>profiles := [u_profile guest_g1, u_profile admin_a1]\<rparr>"

definition token_stored :: storage where
  "token_stored = [''hotel_auth_token'' \<mapsto> ''{session}'']"

definition valid_session :: auth_service where
  "valid_session = \<lparr>getSession = Inr (Some ''jwt''), authGetUser = Inr (Some (''a1'', ''a1@example.org''))\<rparr>"

definition expired_session :: auth_service where
  "expired_session = \<lparr>getSession = Inl server_error, authGetUser = Inl server_error\<rparr>"

text \<open>A filled-in request form of the guest; the table of the admin page; a stored
  request.\<close>

definition example_form :: maintenance_page_state where
  "example_form = \<lparr>mp_loading = False, mp_error = None, mp_success = False,
                   formData = \<lparr>f_title = ''Tap leaks'', f_description = ''The bathroom tap drips'',
                                f_priority = ''high''\<rparr>\<rparr>"

definition admin_table :: maintenance_admin_state where
  "admin_table = \<lparr>ma_requests = [], ma_loading = False, ma_error = None,
                  ma_stats = \<lparr>st_total = 0, st_pending = 0, st_in_progress = 0, st_completed = 0,
                              st_cancelled = 0\<rparr>\<rparr>"

definition example_request :: maintenance_request where
  "example_request = \<lparr>m_room_id = ''r101'', m_guest_id = Some ''g1'', m_title = ''Tap leaks'',
                       m_description = ''The bathroom tap drips'', m_priority = ''high'',
                       m_status = ''pending'', m_created_at = 900, m_updated_at = 900, m_id = 1\<rparr>"

definition store_with_request :: backend where
  "store_with_request = store_with_approved\<lparr>maintenance_requests := [example_request]\<rparr>"

text \<open>The food-order page with the example cart.\<close>

definition example_order_page :: food_order_state where
  "example_order_page = \<lparr>cart = example_cart, fo_error = None\<rparr>"

text \<open>A store that answers every query of the bookings with an error.\<close>

definition bookings_query_fails :: outcomes where
  "bookings_query_fails =
     (\<lambda>c. case c of Select t \<Rightarrow> if t = ''bookings'' then Some server_error else None | _ \<Rightarrow> None)"

section \<open>Properties\<close>

subsection \<open>The cart\<close>

lemma foldl_total_shift:
  "foldl (\<lambda>total item. total + price item * quantity item) a (items :: cart_item list)
     = a + (\<Sum>item\<leftarrow>items. price item * quantity item)"
  by (induction items arbitrary: a) (simp_all add: algebra_simps)

lemma calculateTotal_sum_list:
  "calculateTotal items = (\<Sum>item\<leftarrow>items. price item * quantity item)"
  by (simp add: calculateTotal_def foldl_total_shift)

text \<open>
  C9. For every cart, setting the quantity of an item to 0 leaves exactly the entries of
  the other items, unchanged and in their order, so no entry of that item remains; and
  the total computed for the new cart is the sum of price times quantity over the
  remaining entries.
\<close>

theorem cart_quantity_zero_removes_item:
  "updateCartItemQuantity prevCart itemId 0 = filter (\<lambda>item. mi_id item \<noteq> itemId) prevCart
   \<and> itemId \<notin> mi_id ` set (updateCartItemQuantity prevCart itemId 0)
   \<and> calculateTotal (updateCartItemQuantity prevCart itemId 0)
       = (\<Sum>item\<leftarrow>filter (\<lambda>item. mi_id item \<noteq> itemId) prevCart. price item * quantity item)"
  by (auto simp add: updateCartItemQuantity_def calculateTotal_sum_list)

theorem cart_quantity_zero_removes_item_witness:
  "map mi_id (updateCartItemQuantity example_cart 1 0) = [2]
   \<and> calculateTotal (updateCartItemQuantity example_cart 1 0) = 3"
  using cart_quantity_zero_removes_item [of example_cart 1]
  by (simp add: example_cart_def updateCartItemQuantity_def calculateTotal_def)

subsection \<open>Approving and rejecting a booking\<close>

lemma store_apply_booking_status:
  "store_apply db (Update ''bookings'' (StatusPatch s) (NumKey i))
     = db\<lparr>bookings := map (\<lambda>b. if b_id b = i then b\<lparr>b_status := s\<rparr> else b) (bookings db)\<rparr>"
  by (simp add: store_apply_def)

lemma store_apply_room_status:
  "store_apply db (Update ''rooms'' (StatusPatch s) (StrKey i))
     = db\<lparr>rooms := map (\<lambda>r. if r_id r = i then r\<lparr>r_status := s\<rparr> else r) (rooms db)\<rparr>"
  by (simp add: store_apply_def)

lemma fetchBookRequests_calls: "snd (fetchBookRequests out db st) = [Select ''bookings'']"
  by (simp add: fetchBookRequests_def respond_def Let_def split: option.splits sum.splits)

lemma handleRequestAction_approved_ok:
  assumes "find (\<lambda>r. b_id r = bookingId) (br_requests st) = Some booking"
    and "out (Update ''bookings'' (StatusPatch ''approved'') (NumKey bookingId)) = None"
    and "out (Update ''rooms'' (StatusPatch ''occupied'') (StrKey (b_room_id booking))) = None"
  shows "fst (handleRequestAction out db st bookingId ''approved'')
           = store_apply (store_apply db (Update ''bookings'' (StatusPatch ''approved'') (NumKey bookingId)))
               (Update ''rooms'' (StatusPatch ''occupied'') (StrKey (b_room_id booking)))"
    and "snd (snd (handleRequestAction out db st bookingId ''approved''))
           = [Update ''bookings'' (StatusPatch ''approved'') (NumKey bookingId),
              Update ''rooms'' (StatusPatch ''occupied'') (StrKey (b_room_id booking)),
              Select ''bookings'']"
  using assms fetchBookRequests_calls
  by (simp_all add: handleRequestAction_def Let_def split_beta)

lemma handleRequestAction_rejected_ok:
  assumes "out (Update ''bookings'' (StatusPatch ''rejected'') (NumKey bookingId)) = None"
  shows "fst (handleRequestAction out db st bookingId ''rejected'')
           = store_apply db (Update ''bookings'' (StatusPatch ''rejected'') (NumKey bookingId))"
    and "snd (snd (handleRequestAction out db st bookingId ''rejected''))
           = [Update ''bookings'' (StatusPatch ''rejected'') (NumKey bookingId), Select ''bookings'']"
  using assms fetchBookRequests_calls
  by (simp_all add: handleRequestAction_def Let_def split_beta)

lemma handleRequestAction_room_failed:
  assumes "find (\<lambda>r. b_id r = bookingId) (br_requests st) = Some booking"
    and "out (Update ''bookings'' (StatusPatch ''approved'') (NumKey bookingId)) = None"
    and "out (Update ''rooms'' (StatusPatch ''occupied'') (StrKey (b_room_id booking))) = Some roomError"
  shows "handleRequestAction out db st bookingId ''approved''
           = (store_apply db (Update ''bookings'' (StatusPatch ''approved'') (NumKey bookingId)),
              request_action_failed (st\<lparr>br_loading := True\<rparr>) ''approved'' roomError,
              [Update ''bookings'' (StatusPatch ''approved'') (NumKey bookingId),
               Update ''rooms'' (StatusPatch ''occupied'') (StrKey (b_room_id booking))])"
  using assms
  by (simp add: handleRequestAction_def Let_def)

text \<open>
  C1. Let the admin page list a booking under the id \<open>bookingId\<close>, and let the store
  perform the calls. Approving it sets the status of the bookings with that id to
  \<^verbatim>\<open>approved\<close> and the status of the rooms with the id the listed booking refers to to
  \<^verbatim>\<open>occupied\<close>, by an update of the bookings followed by an update of the rooms.
  Rejecting it sets the status of the booking to \<^verbatim>\<open>rejected\<close>, leaves the rooms as they
  are, and issues the update of the bookings and the refresh of the list, no update of a
  room.
\<close>

theorem approve_occupies_room_reject_does_not:
  assumes "find (\<lambda>r. b_id r = bookingId) (br_requests st) = Some booking"
    and "out (Update ''bookings'' (StatusPatch ''approved'') (NumKey bookingId)) = None"
    and "out (Update ''rooms'' (StatusPatch ''occupied'') (StrKey (b_room_id booking))) = None"
    and "out (Update ''bookings'' (StatusPatch ''rejected'') (NumKey bookingId)) = None"
  shows "bookings (fst (handleRequestAction out db st bookingId ''approved''))
           = map (\<lambda>b. if b_id b = bookingId then b\<lparr>b_status := ''approved''\<rparr> else b) (bookings db)
       \<and> rooms (fst (handleRequestAction out db st bookingId ''approved''))
           = map (\<lambda>r. if r_id r = b_room_id booking then r\<lparr>r_status := ''occupied''\<rparr> else r) (rooms db)
       \<and> snd (snd (handleRequestAction out db st bookingId ''approved''))
           = [Update ''bookings'' (StatusPatch ''approved'') (NumKey bookingId),
              Update ''rooms'' (StatusPatch ''occupied'') (StrKey (b_room_id booking)),
              Select ''bookings'']
       \<and> bookings (fst (handleRequestAction out db st bookingId ''rejected''))
           = map (\<lambda>b. if b_id b = bookingId then b\<lparr>b_status := ''rejected''\<rparr> else b) (bookings db)
       \<and> rooms (fst (handleRequestAction out db st bookingId ''rejected'')) = rooms db
       \<and> snd (snd (handleRequestAction out db st bookingId ''rejected''))
           = [Update ''bookings'' (StatusPatch ''rejected'') (NumKey bookingId), Select ''bookings'']"
  using handleRequestAction_approved_ok [where db = db, OF assms(1,2,3)]
        handleRequestAction_rejected_ok
          [where out = out and db = db and st = st and bookingId = bookingId, OF assms(4)]
  by (simp add: store_apply_booking_status store_apply_room_status)

theorem approve_occupies_room_reject_does_not_witness:
  "map b_status (bookings (fst (handleRequestAction all_succeed example_store listing 7 ''approved'')))
     = [''approved'']
   \<and> map r_status (rooms (fst (handleRequestAction all_succeed example_store listing 7 ''approved'')))
     = [''occupied'']
   \<and> map b_status (bookings (fst (handleRequestAction all_succeed example_store listing 7 ''rejected'')))
     = [''rejected'']
   \<and> map r_status (rooms (fst (handleRequestAction all_succeed example_store listing 7 ''rejected'')))
     = [''available'']"
proof -
  have listed: "find (\<lambda>r. b_id r = 7) (br_requests listing) = Some pending_booking"
    by (simp add: listing_def pending_booking_def)
  have ok: "all_succeed c = None" for c
    by (simp add: all_succeed_def)
  show ?thesis
    using approve_occupies_room_reject_does_not
            [where out = all_succeed and db = example_store, OF listed ok ok ok]
    by (simp add: example_store_def pending_booking_def room_101_def)
qed

text \<open>
  C2. Approval is two separate calls with no compensation. If the store performs the
  update of the booking and answers the update of the room with an error, the handler
  issues exactly these two calls and stops: the booking is left \<^verbatim>\<open>approved\<close>, the rooms
  are as they were, and the message of the error is shown.
\<close>

theorem approval_not_atomic:
  assumes "find (\<lambda>r. b_id r = bookingId) (br_requests st) = Some booking"
    and "out (Update ''bookings'' (StatusPatch ''approved'') (NumKey bookingId)) = None"
    and "out (Update ''rooms'' (StatusPatch ''occupied'') (StrKey (b_room_id booking))) = Some roomError"
  shows "bookings (fst (handleRequestAction out db st bookingId ''approved''))
           = map (\<lambda>b. if b_id b = bookingId then b\<lparr>b_status := ''approved''\<rparr> else b) (bookings db)
       \<and> rooms (fst (handleRequestAction out db st bookingId ''approved'')) = rooms db
       \<and> snd (snd (handleRequestAction out db st bookingId ''approved''))
           = [Update ''bookings'' (StatusPatch ''approved'') (NumKey bookingId),
              Update ''rooms'' (StatusPatch ''occupied'') (StrKey (b_room_id booking))]
       \<and> br_error (fst (snd (handleRequestAction out db st bookingId ''approved'')))
           = ''Error approving request: '' @ err_message roomError"
  by (simp add: handleRequestAction_room_failed [OF assms] store_apply_booking_status
        request_action_failed_def)

theorem approval_not_atomic_witness:
  "map b_status (bookings (fst (handleRequestAction room_update_fails example_store listing 7 ''approved'')))
     = [''approved'']
   \<and> map r_status (rooms (fst (handleRequestAction room_update_fails example_store listing 7 ''approved'')))
     = [''available'']
   \<and> length (snd (snd (handleRequestAction room_update_fails example_store listing 7 ''approved''))) = 2
   \<and> br_error (fst (snd (handleRequestAction room_update_fails example_store listing 7 ''approved'')))
     = ''Error approving request: Internal Server Error''"
proof -
  have listed: "find (\<lambda>r. b_id r = 7) (br_requests listing) = Some pending_booking"
    by (simp add: listing_def pending_booking_def)
  have ok: "room_update_fails (Update ''bookings'' (StatusPatch ''approved'') (NumKey 7)) = None"
    by (simp add: room_update_fails_def)
  have bad: "room_update_fails (Update ''rooms'' (StatusPatch ''occupied'') (StrKey (b_room_id pending_booking)))
               = Some server_error"
    by (simp add: room_update_fails_def)
  show ?thesis
    using approval_not_atomic [where db = example_store, OF listed ok bad]
    by (simp add: example_store_def pending_booking_def room_101_def server_error_def)
qed

subsection \<open>The booking page: the check for an active booking\<close>

lemma single_latest:
  assumes "rs \<noteq> []"
  shows "\<exists>x. single (limit 1 (order_desc f rs)) = Inr x \<and> x \<in> set rs"
proof -
  have "length (order_desc f rs) = length rs" by (simp add: order_desc_def)
  with assms have "order_desc f rs \<noteq> []" by auto
  then obtain y ys where ys: "order_desc f rs = y # ys" by (cases "order_desc f rs") auto
  have "set (order_desc f rs) = set rs" by (simp add: order_desc_def)
  with ys have "y \<in> set rs" by auto
  moreover have "single (limit 1 (order_desc f rs)) = Inr y"
    by (simp add: ys limit_def single_def)
  ultimately show ?thesis by blast
qed

lemma single_Inr_mem:
  assumes "single (limit n (order_desc f rs)) = Inr x"
  shows "x \<in> set rs"
proof -
  from assms have "limit n (order_desc f rs) = [x]"
    by (auto simp add: single_def split: list.splits)
  then have "x \<in> set (take n (rev (sort_key f rs)))" by (simp add: limit_def order_desc_def)
  then have "x \<in> set (rev (sort_key f rs))" by (rule in_set_takeD)
  then show ?thesis by simp
qed

lemma fetchAvailableRooms_calls: "snd (fetchAvailableRooms out db st) = [Select ''rooms'']"
  by (simp add: fetchAvailableRooms_def respond_def Let_def split: option.splits sum.splits)

text \<open>
  C3, as stated, fails, in two ways. The query of the check asks for the status
  \<^verbatim>\<open>approved\<close> only: for a guest whose only booking is pending, with a check-out date
  not before today, the check finds nothing and the page renders the booking form. And
  the check falls back to the list of rooms when its query is answered with an error: for
  a guest with an approved booking, with a check-out date not before today, the page then
  renders the booking form as well, and the fetch of the rooms has cleared the message of
  the failed check.
\<close>

theorem precheck_misses_pending_and_fails_open:
  "pending_booking \<in> set (bookings example_store)
   \<and> b_guest_id pending_booking = u_id guest_g1
   \<and> b_status pending_booking = ''pending''
   \<and> 21 \<le> check_out_date pending_booking
   \<and> BookRoom_view (fst (checkActiveBooking all_succeed example_store (Some guest_g1) 21 BookRoom_initial))
       = BookingForm
   \<and> approved_booking \<in> set (bookings store_with_approved)
   \<and> b_guest_id approved_booking = u_id guest_g1
   \<and> b_status approved_booking = ''approved''
   \<and> 21 \<le> check_out_date approved_booking
   \<and> BookRoom_view (fst (checkActiveBooking bookings_query_fails store_with_approved (Some guest_g1) 21
                           BookRoom_initial)) = BookingForm
   \<and> bk_error (fst (checkActiveBooking bookings_query_fails store_with_approved (Some guest_g1) 21
                       BookRoom_initial)) = []"
  by (simp add: example_store_def store_with_approved_def approved_booking_def pending_booking_def
        guest_g1_def all_succeed_def bookings_query_fails_def server_error_def
        BookRoom_initial_def checkActiveBooking_def active_booking_query_def respond_def
        fetchAvailableRooms_def single_def limit_def order_desc_def BookRoom_view_def room_101_def
        Let_def)

text \<open>
  C3, amended. For every guest who holds a booking with status \<^verbatim>\<open>approved\<close> and a
  check-out date not before today, when the query of the check is answered without an
  error, the page renders the notice of the active booking instead of the booking form,
  and issues no other call than the query (the available rooms are not fetched).
\<close>

theorem approved_booking_blocks_form:
  assumes "b \<in> set (bookings db)" and "b_guest_id b = u_id usr" and "b_status b = ''approved''"
    and "today \<le> check_out_date b" and "out (Select ''bookings'') = None"
  shows "BookRoom_view (fst (checkActiveBooking out db (Some usr) today st)) = ActiveBookingNotice
       \<and> snd (checkActiveBooking out db (Some usr) today st) = [Select ''bookings'']"
proof -
  let ?rs = "filter (\<lambda>b. Some (b_guest_id b) = map_option u_id (Some usr) \<and> b_status b = ''approved''
                     \<and> today \<le> check_out_date b) (bookings db)"
  have "b \<in> set ?rs" using assms by simp
  then have "?rs \<noteq> []" by (metis empty_iff empty_set)
  from single_latest [OF this, of check_in_date]
  obtain x where "active_booking_query db (Some usr) today = Inr x"
    by (auto simp add: active_booking_query_def)
  then show ?thesis using assms(5)
    by (simp add: checkActiveBooking_def respond_def Let_def BookRoom_view_def)
qed

theorem approved_booking_blocks_form_witness:
  "approved_booking \<in> set (bookings store_with_approved)
   \<and> 21 \<le> check_out_date approved_booking
   \<and> BookRoom_view (fst (checkActiveBooking all_succeed store_with_approved (Some guest_g1) 21
                           BookRoom_initial)) = ActiveBookingNotice"
proof -
  have 1: "approved_booking \<in> set (bookings store_with_approved)"
    by (simp add: store_with_approved_def)
  have 2: "b_guest_id approved_booking = u_id guest_g1"
    by (simp add: approved_booking_def pending_booking_def guest_g1_def)
  have 3: "b_status approved_booking = ''approved''"
    by (simp add: approved_booking_def)
  have 4: "21 \<le> check_out_date approved_booking"
    by (simp add: approved_booking_def pending_booking_def)
  have 5: "all_succeed (Select ''bookings'') = None"
    by (simp add: all_succeed_def)
  show ?thesis
    using approved_booking_blocks_form
            [where out = all_succeed and st = BookRoom_initial, OF 1 2 3 4 5] 1 4
    by simp
qed

subsection \<open>The booking page: creating a booking\<close>

lemma handleBookRoom_calls:
  "snd (snd (handleBookRoom out book_room getTime toString db usr st rm)) =
     (if checkInDate st = [] \<or> checkOutDate st = []
         \<or> date_ge getTime (checkInDate st) (checkOutDate st) \<or> numberOfGuests st > capacity rm
      then []
      else case book_room (book_room_call getTime usr st rm) db of
             Inl bookingError \<Rightarrow> [Rpc ''book_room'' (book_room_call getTime usr st rm)]
           | Inr db1 \<Rightarrow> [Rpc ''book_room'' (book_room_call getTime usr st rm), Select ''rooms''])"
  using fetchAvailableRooms_calls
  by (simp add: handleBookRoom_def Let_def split_beta split: sum.splits)

lemma handleBookRoom_rejected_error:
  assumes "checkInDate st = [] \<or> checkOutDate st = []
         \<or> date_ge getTime (checkInDate st) (checkOutDate st) \<or> numberOfGuests st > capacity rm"
  shows "bk_error (fst (snd (handleBookRoom out book_room getTime toString db usr st rm))) \<noteq> []"
  using assms by (auto simp add: handleBookRoom_def)

text \<open>
  C4. Whatever the inputs, the calls \<^verbatim>\<open>handleBookRoom\<close> issues are none (the form is
  rejected), or the one call of the procedure \<^verbatim>\<open>book_room\<close>, or that call followed by
  the refresh of the room list: never an insert. When the form passes the checks the first
  call is the procedure call; when the procedure answers with an error no call follows
  it. The parameters of the call are the six of the record, taken from the room, the user
  and the form.
\<close>

theorem booking_is_one_remote_procedure_call:
  "(snd (snd (handleBookRoom out book_room getTime toString db usr st rm)) = []
    \<or> snd (snd (handleBookRoom out book_room getTime toString db usr st rm))
         = [Rpc ''book_room'' (book_room_call getTime usr st rm)]
    \<or> snd (snd (handleBookRoom out book_room getTime toString db usr st rm))
         = [Rpc ''book_room'' (book_room_call getTime usr st rm), Select ''rooms''])
   \<and> (checkInDate st \<noteq> [] \<and> checkOutDate st \<noteq> []
        \<and> \<not> date_ge getTime (checkInDate st) (checkOutDate st) \<and> numberOfGuests st \<le> capacity rm
      \<longrightarrow> hd (snd (snd (handleBookRoom out book_room getTime toString db usr st rm)))
            = Rpc ''book_room'' (book_room_call getTime usr st rm))
   \<and> (book_room (book_room_call getTime usr st rm) db = Inl bookingError
      \<longrightarrow> tl (snd (snd (handleBookRoom out book_room getTime toString db usr st rm))) = [])
   \<and> p_room_id (book_room_call getTime usr st rm) = r_id rm
   \<and> p_guest_id (book_room_call getTime usr st rm) = map_option u_id usr
   \<and> p_check_in_date (book_room_call getTime usr st rm) = checkInDate st
   \<and> p_check_out_date (book_room_call getTime usr st rm) = checkOutDate st
   \<and> p_number_of_guests (book_room_call getTime usr st rm) = numberOfGuests st
   \<and> p_total_price (book_room_call getTime usr st rm)
       = calculateTotalPrice getTime (price_per_night rm) (checkInDate st) (checkOutDate st)"
  by (auto simp add: handleBookRoom_calls book_room_call_def split: sum.splits)

theorem booking_is_one_remote_procedure_call_witness:
  "snd (snd (handleBookRoom all_succeed accepting_procedure example_getTime example_toString
               example_store (Some guest_g1) filled_form room_101))
     = [Rpc ''book_room''
          \<lparr>p_room_id = ''r101'', p_guest_id = Some ''g1'', p_check_in_date = ''2025-03-01'',
           p_check_out_date = ''2025-03-04'', p_number_of_guests = 2, p_total_price = Some 300\<rparr>,
        Select ''rooms'']
   \<and> snd (snd (handleBookRoom all_succeed rejecting_procedure example_getTime example_toString
               example_store (Some guest_g1) filled_form room_101))
     = [Rpc ''book_room''
          \<lparr>p_room_id = ''r101'', p_guest_id = Some ''g1'', p_check_in_date = ''2025-03-01'',
           p_check_out_date = ''2025-03-04'', p_number_of_guests = 2, p_total_price = Some 300\<rparr>]"
proof -
  have p: "book_room_call example_getTime (Some guest_g1) filled_form room_101
         = \<lparr>p_room_id = ''r101'', p_guest_id = Some ''g1'', p_check_in_date = ''2025-03-01'',
           p_check_out_date = ''2025-03-04'', p_number_of_guests = 2, p_total_price = Some 300\<rparr>"
    by (simp add: book_room_call_def filled_form_def BookRoom_initial_def room_101_def guest_g1_def
          calculateTotalPrice_def example_getTime_def nights_def)
  have v: "checkInDate filled_form \<noteq> [] \<and> checkOutDate filled_form \<noteq> []
         \<and> \<not> date_ge example_getTime (checkInDate filled_form) (checkOutDate filled_form)
         \<and> numberOfGuests filled_form \<le> capacity room_101"
    by (simp add: filled_form_def BookRoom_initial_def room_101_def date_ge_def example_getTime_def)
  have a: "snd (snd (handleBookRoom all_succeed accepting_procedure example_getTime example_toString
               example_store (Some guest_g1) filled_form room_101)) \<noteq> []"
    using v by (simp add: handleBookRoom_def accepting_procedure_def Let_def split_beta)
  have b: "tl (snd (snd (handleBookRoom all_succeed accepting_procedure example_getTime example_toString
               example_store (Some guest_g1) filled_form room_101))) \<noteq> []"
    using v by (simp add: handleBookRoom_def accepting_procedure_def fetchAvailableRooms_def
          respond_def all_succeed_def Let_def split_beta)
  have c: "snd (snd (handleBookRoom all_succeed rejecting_procedure example_getTime example_toString
               example_store (Some guest_g1) filled_form room_101)) \<noteq> []"
    using v by (simp add: handleBookRoom_def rejecting_procedure_def Let_def split_beta)
  have r: "rejecting_procedure (book_room_call example_getTime (Some guest_g1) filled_form room_101)
             example_store = Inl server_error"
    by (simp add: rejecting_procedure_def)
  show ?thesis
    using booking_is_one_remote_procedure_call
            [of all_succeed accepting_procedure example_getTime example_toString example_store
                "Some guest_g1" filled_form room_101 server_error]
          booking_is_one_remote_procedure_call
            [of all_succeed rejecting_procedure example_getTime example_toString example_store
                "Some guest_g1" filled_form room_101 server_error]
          a b c r
    unfolding p by auto
qed

subsection \<open>The booking page: the total price\<close>

lemma nights_ceiling:
  "real_of_int (end_ms - start_ms) / 86400000 \<le> real_of_int (nights start_ms end_ms)
   \<and> real_of_int (nights start_ms end_ms) < real_of_int (end_ms - start_ms) / 86400000 + 1"
proof -
  have e: "(1000 * 60 * 60 * 24 :: real) = 86400000" by simp
  show ?thesis unfolding nights_def e using ceiling_correct [of "real_of_int (end_ms - start_ms) / 86400000"]
    by linarith
qed

lemma nights_positive:
  assumes "start_ms < end_ms"
  shows "1 \<le> nights start_ms end_ms"
proof -
  have "0 < real_of_int (end_ms - start_ms) / (1000 * 60 * 60 * 24)"
    using assms by simp
  then have "0 < nights start_ms end_ms"
    unfolding nights_def by (simp only: ceiling_less_iff zero_less_ceiling)
  then show ?thesis by simp
qed

text \<open>
  C10. Let the two dates of the form be valid, at \<open>start_ms\<close> and \<open>end_ms\<close>
  milliseconds. If check-in is strictly earlier than check-out, the number of nights is
  the ceiling of the difference in days, at least 1, every procedure call issued carries
  the price per night times the number of nights as its total, and the call is issued
  when the dates are filled in and the guests fit the room. If check-in is not strictly
  earlier, no call is issued, the store is unchanged and an error message is set.
\<close>

theorem total_price_is_price_times_nights:
  assumes "getTime (checkInDate st) = Some start_ms" and "getTime (checkOutDate st) = Some end_ms"
  shows "(start_ms < end_ms \<longrightarrow>
            1 \<le> nights start_ms end_ms
          \<and> real_of_int (end_ms - start_ms) / 86400000 \<le> real_of_int (nights start_ms end_ms)
          \<and> real_of_int (nights start_ms end_ms) < real_of_int (end_ms - start_ms) / 86400000 + 1
          \<and> (\<forall>c \<in> set (snd (snd (handleBookRoom out book_room getTime toString db usr st rm))).
               \<forall>name params. c = Rpc name params \<longrightarrow>
                 p_total_price params = Some (price_per_night rm * of_int (nights start_ms end_ms)))
          \<and> (checkInDate st \<noteq> [] \<and> checkOutDate st \<noteq> [] \<and> numberOfGuests st \<le> capacity rm \<longrightarrow>
               (\<exists>params. hd (snd (snd (handleBookRoom out book_room getTime toString db usr st rm)))
                            = Rpc ''book_room'' params)))
       \<and> (\<not> start_ms < end_ms \<longrightarrow>
            snd (snd (handleBookRoom out book_room getTime toString db usr st rm)) = []
          \<and> fst (handleBookRoom out book_room getTime toString db usr st rm) = db
          \<and> bk_error (fst (snd (handleBookRoom out book_room getTime toString db usr st rm))) \<noteq> [])"
proof (intro conjI impI)
  assume lt: "start_ms < end_ms"
  show "1 \<le> nights start_ms end_ms" using lt by (rule nights_positive)
  show "real_of_int (end_ms - start_ms) / 86400000 \<le> real_of_int (nights start_ms end_ms)"
    using nights_ceiling by blast
  show "real_of_int (nights start_ms end_ms) < real_of_int (end_ms - start_ms) / 86400000 + 1"
    using nights_ceiling by blast
  show "\<forall>c \<in> set (snd (snd (handleBookRoom out book_room getTime toString db usr st rm))).
               \<forall>name params. c = Rpc name params \<longrightarrow>
                 p_total_price params = Some (price_per_night rm * of_int (nights start_ms end_ms))"
    using assms
    by (auto simp add: handleBookRoom_calls book_room_call_def calculateTotalPrice_def
          split: if_splits sum.splits)
next
  assume lt: "start_ms < end_ms"
    and ok: "checkInDate st \<noteq> [] \<and> checkOutDate st \<noteq> [] \<and> numberOfGuests st \<le> capacity rm"
  have "\<not> date_ge getTime (checkInDate st) (checkOutDate st)"
    using assms lt by (simp add: date_ge_def)
  with ok show "\<exists>params. hd (snd (snd (handleBookRoom out book_room getTime toString db usr st rm)))
                            = Rpc ''book_room'' params"
    by (auto simp add: handleBookRoom_calls split: sum.splits)
next
  assume ge: "\<not> start_ms < end_ms"
  have d: "date_ge getTime (checkInDate st) (checkOutDate st)"
    using assms ge by (simp add: date_ge_def)
  then show "snd (snd (handleBookRoom out book_room getTime toString db usr st rm)) = []"
    by (simp add: handleBookRoom_calls)
  show "fst (handleBookRoom out book_room getTime toString db usr st rm) = db"
    using d by (simp add: handleBookRoom_def)
  show "bk_error (fst (snd (handleBookRoom out book_room getTime toString db usr st rm))) \<noteq> []"
    using d by (simp add: handleBookRoom_rejected_error)
qed

theorem total_price_is_price_times_nights_witness:
  "example_getTime (checkInDate filled_form) = Some 1740787200000
   \<and> example_getTime (checkOutDate filled_form) = Some 1741046400000
   \<and> nights 1740787200000 1741046400000 = 3
   \<and> snd (snd (handleBookRoom all_succeed rejecting_procedure example_getTime example_toString
                 example_store (Some guest_g1) filled_form room_101))
       = [Rpc ''book_room''
            \<lparr>p_room_id = ''r101'', p_guest_id = Some ''g1'', p_check_in_date = ''2025-03-01'',
             p_check_out_date = ''2025-03-04'', p_number_of_guests = 2, p_total_price = Some 300\<rparr>]
   \<and> snd (snd (handleBookRoom all_succeed accepting_procedure example_getTime example_toString
                 example_store (Some guest_g1) reversed_form room_101)) = []
   \<and> bk_error (fst (snd (handleBookRoom all_succeed accepting_procedure example_getTime example_toString
                 example_store (Some guest_g1) reversed_form room_101)))
       = ''Check-out date must be after check-in date''"
proof -
  have i: "example_getTime (checkInDate filled_form) = Some 1740787200000"
    by (simp add: filled_form_def BookRoom_initial_def example_getTime_def)
  have o: "example_getTime (checkOutDate filled_form) = Some 1741046400000"
    by (simp add: filled_form_def BookRoom_initial_def example_getTime_def)
  have i': "example_getTime (checkInDate reversed_form) = Some 1741046400000"
    by (simp add: reversed_form_def example_getTime_def)
  have o': "example_getTime (checkOutDate reversed_form) = Some 1740787200000"
    by (simp add: reversed_form_def example_getTime_def)
  have n: "nights 1740787200000 1741046400000 = 3"
    by (simp add: nights_def)
  have c: "snd (snd (handleBookRoom all_succeed rejecting_procedure example_getTime example_toString
                 example_store (Some guest_g1) filled_form room_101))
       = [Rpc ''book_room''
            \<lparr>p_room_id = ''r101'', p_guest_id = Some ''g1'', p_check_in_date = ''2025-03-01'',
             p_check_out_date = ''2025-03-04'', p_number_of_guests = 2, p_total_price = Some 300\<rparr>]"
    by (simp add: handleBookRoom_def rejecting_procedure_def filled_form_def BookRoom_initial_def
          room_101_def guest_g1_def book_room_call_def calculateTotalPrice_def example_getTime_def
          date_ge_def n Let_def)
  have e: "bk_error (fst (snd (handleBookRoom all_succeed accepting_procedure example_getTime
                 example_toString example_store (Some guest_g1) reversed_form room_101)))
       = ''Check-out date must be after check-in date''"
    by (simp add: handleBookRoom_def reversed_form_def filled_form_def BookRoom_initial_def
          example_getTime_def date_ge_def)
  show ?thesis
    using total_price_is_price_times_nights
            [where out = all_succeed and book_room = rejecting_procedure
               and toString = example_toString and db = example_store and usr = "Some guest_g1"
               and rm = room_101, OF i o]
          total_price_is_price_times_nights
            [where out = all_succeed and book_room = accepting_procedure
               and toString = example_toString and db = example_store and usr = "Some guest_g1"
               and rm = room_101, OF i' o']
          i o n c e
    by simp
qed

subsection \<open>Session restoration\<close>

text \<open>
  C5. Let a non-empty token be stored. If the service validates the session and the
  identity and the profile of the identity is fetched, \<^verbatim>\<open>getUser\<close> yields the user
  with that profile (the stored profile of that id, so its stored role), and the hook
  holds it and stops loading. If the validation fails (the session check answers with an
  error or with no session, or the identity check answers with an error), the result is
  no user, the token is removed from the storage, and the hook holds no user.
\<close>

theorem session_restoration:
  assumes "ls ''hotel_auth_token'' = Some token" and "token \<noteq> []"
  shows "(getSession au = Inr (Some session) \<and> authGetUser au = Inr (Some (uid, mail))
          \<and> respond out (Select ''profiles'') (single (filter (\<lambda>p. pr_id p = uid) (profiles db))) = Inr prof
          \<longrightarrow> fst (getUser au out db ls) = Some \<lparr>u_id = uid, u_email = mail, u_profile = prof\<rparr>
            \<and> pr_id prof = uid \<and> prof \<in> set (profiles db)
            \<and> as_user (fst (checkUser au out db ls st))
                 = Some \<lparr>u_id = uid, u_email = mail, u_profile = prof\<rparr>
            \<and> \<not> as_loading (fst (checkUser au out db ls st)))
       \<and> ((getSession au = Inl e \<or> getSession au = Inr None
            \<or> (getSession au = Inr (Some session) \<and> authGetUser au = Inl e))
          \<longrightarrow> fst (getUser au out db ls) = None
            \<and> fst (snd (getUser au out db ls)) ''hotel_auth_token'' = None
            \<and> as_user (fst (checkUser au out db ls st)) = None
            \<and> \<not> as_loading (fst (checkUser au out db ls st))
            \<and> fst (snd (checkUser au out db ls st)) ''hotel_auth_token'' = None)"
proof (intro conjI impI)
  assume ok: "getSession au = Inr (Some session) \<and> authGetUser au = Inr (Some (uid, mail))
          \<and> respond out (Select ''profiles'') (single (filter (\<lambda>p. pr_id p = uid) (profiles db))) = Inr prof"
  then show g: "fst (getUser au out db ls) = Some \<lparr>u_id = uid, u_email = mail, u_profile = prof\<rparr>"
    using assms by (simp add: getUser_def Let_def)
  from ok have "single (filter (\<lambda>p. pr_id p = uid) (profiles db)) = Inr prof"
    by (auto simp add: respond_def split: option.splits)
  then have "filter (\<lambda>p. pr_id p = uid) (profiles db) = [prof]"
    by (auto simp add: single_def split: list.splits)
  then have "prof \<in> set (filter (\<lambda>p. pr_id p = uid) (profiles db))" by simp
  then show "pr_id prof = uid" and "prof \<in> set (profiles db)" by auto
  show "as_user (fst (checkUser au out db ls st)) = Some \<lparr>u_id = uid, u_email = mail, u_profile = prof\<rparr>"
    using g by (simp add: checkUser_def split_beta)
  show "\<not> as_loading (fst (checkUser au out db ls st))"
    by (simp add: checkUser_def split_beta)
next
  assume bad: "getSession au = Inl e \<or> getSession au = Inr None
            \<or> (getSession au = Inr (Some session) \<and> authGetUser au = Inl e)"
  then show g: "fst (getUser au out db ls) = None"
    using assms by (auto simp add: getUser_def)
  from bad show r: "fst (snd (getUser au out db ls)) ''hotel_auth_token'' = None"
    using assms by (auto simp add: getUser_def removeItem_def)
  show "as_user (fst (checkUser au out db ls st)) = None"
    using g by (simp add: checkUser_def split_beta)
  show "\<not> as_loading (fst (checkUser au out db ls st))"
    by (simp add: checkUser_def split_beta)
  show "fst (snd (checkUser au out db ls st)) ''hotel_auth_token'' = None"
    using r by (simp add: checkUser_def split_beta)
qed

theorem session_restoration_witness:
  "token_stored ''hotel_auth_token'' = Some ''{session}''
   \<and> map_option (\<lambda>u. role (u_profile u))
        (as_user (fst (checkUser valid_session all_succeed store_with_profiles token_stored useAuth_initial)))
       = Some ''admin''
   \<and> as_user (fst (checkUser expired_session all_succeed store_with_profiles token_stored useAuth_initial))
       = None
   \<and> fst (snd (checkUser expired_session all_succeed store_with_profiles token_stored useAuth_initial))
        ''hotel_auth_token'' = None"
proof -
  have t: "token_stored ''hotel_auth_token'' = Some ''{session}''"
    by (simp add: token_stored_def)
  have n: "''{session}'' \<noteq> []" by simp
  have v: "getSession valid_session = Inr (Some ''jwt'')
         \<and> authGetUser valid_session = Inr (Some (''a1'', ''a1@example.org''))
         \<and> respond all_succeed (Select ''profiles'')
              (single (filter (\<lambda>p. pr_id p = ''a1'') (profiles store_with_profiles)))
             = Inr (u_profile admin_a1)"
    by (simp add: valid_session_def respond_def all_succeed_def single_def store_with_profiles_def
          guest_g1_def admin_a1_def)
  have x: "getSession expired_session = Inl server_error"
    by (simp add: expired_session_def)
  show ?thesis
    using session_restoration
            [where ls = token_stored and token = "''{session}''" and au = valid_session and out = all_succeed and db = store_with_profiles
               and st = useAuth_initial and session = "''jwt''" and uid = "''a1''"
               and mail = "''a1@example.org''" and prof = "u_profile admin_a1" and e = server_error,
             OF t n]
          session_restoration
            [where ls = token_stored and token = "''{session}''" and au = expired_session and out = all_succeed and db = store_with_profiles
               and st = useAuth_initial and session = "''jwt''" and uid = "''a1''"
               and mail = "''a1@example.org''" and prof = "u_profile admin_a1" and e = server_error,
             OF t n]
          t v x
    by (simp add: admin_a1_def)
qed

text \<open>A failure of the profile query is not a failure of the validation: the result is
  no user as well, and the token stays unless the error is a 401 or names an invalid
  refresh token.\<close>

lemma profile_failure_keeps_token:
  assumes "ls ''hotel_auth_token'' = Some token" and "token \<noteq> []"
    and "getSession au = Inr (Some session)" and "authGetUser au = Inr (Some (uid, mail))"
    and "out (Select ''profiles'') = Some e"
    and "err_status e \<noteq> Some 401" and "\<not> message_includes (err_message e) ''Invalid Refresh Token''"
  shows "getUser au out db ls = (None, ls, [AuthGetSession, AuthGetUser, Select ''profiles''])"
  using assms by (simp add: getUser_def respond_def Let_def)

subsection \<open>Route gating\<close>

text \<open>The component \<^verbatim>\<open>ProtectedRoute\<close>, which no route mounts, would redirect to the
  login screen and to the home of the role.\<close>

lemma ProtectedRoute_redirects:
  assumes "\<not> as_loading au"
  shows "(as_user au = None \<longrightarrow> ProtectedRoute au requireAdmin = Navigate ''/login'')
       \<and> (as_user au = Some usr \<and> role (u_profile usr) = ''admin''
            \<longrightarrow> ProtectedRoute au False = Navigate ''/admin/dashboard''
              \<and> ProtectedRoute au True = Children)
       \<and> (as_user au = Some usr \<and> role (u_profile usr) = ''guest''
            \<longrightarrow> ProtectedRoute au True = Navigate ''/guest/dashboard''
              \<and> ProtectedRoute au False = Children)"
  using assms by (simp add: ProtectedRoute_def)

lemma admin_path_not_public:
  assumes "admin_path location"
  shows "location \<noteq> [] \<and> location \<noteq> [''login''] \<and> location \<noteq> [''signup'']"
  using assms by (auto simp add: admin_path_def match_area_def split: list.splits if_splits)

lemma guest_path_not_public:
  assumes "guest_path location"
  shows "location \<noteq> [] \<and> location \<noteq> [''login''] \<and> location \<noteq> [''signup'']
       \<and> \<not> admin_path location"
  using assms
  by (auto simp add: guest_path_def admin_path_def match_area_def split: list.splits if_splits)

lemma App_admin_path:
  assumes "\<not> as_loading au" and "admin_path location"
  shows "App au location
           = area_element au ''admin'' ''AdminLayout'' (match_area ''admin'' admin_routes location)"
  using assms admin_path_not_public [OF assms(2)] by (simp add: App_def)

lemma App_guest_path:
  assumes "\<not> as_loading au" and "guest_path location"
  shows "App au location
           = area_element au ''guest'' ''GuestLayout'' (match_area ''guest'' guest_routes location)"
  using assms guest_path_not_public [OF assms(2)] by (simp add: App_def)

text \<open>
  C6, as stated, fails on the route table. An unauthenticated request to a path of the
  admin or of the guest area, an admin's request to a path of the guest area and a
  guest's request to a path of the admin area are all redirected to \<^verbatim>\<open>/\<close>, the landing
  page: not to the login screen, the admin home or the guest home. And while the session
  is loading, an authenticated admin requesting a path of the guest area is shown the
  spinner, not redirected.
\<close>

theorem app_gating_redirects_to_landing:
  "admin_path [''admin'', ''dashboard''] \<and> guest_path [''guest'', ''dashboard'']
   \<and> App \<lparr>as_user = None, as_loading = False\<rparr> [''admin'', ''dashboard''] = NavigateTo ''/''
   \<and> App \<lparr>as_user = None, as_loading = False\<rparr> [''guest'', ''dashboard''] = NavigateTo ''/''
   \<and> App \<lparr>as_user = Some admin_a1, as_loading = False\<rparr> [''guest'', ''dashboard''] = NavigateTo ''/''
   \<and> App \<lparr>as_user = Some guest_g1, as_loading = False\<rparr> [''admin'', ''dashboard''] = NavigateTo ''/''
   \<and> App \<lparr>as_user = Some admin_a1, as_loading = True\<rparr> [''guest'', ''dashboard''] = AppSpinner
   \<and> NavigateTo ''/'' \<noteq> NavigateTo ''/login''
   \<and> NavigateTo ''/'' \<noteq> NavigateTo ''/admin/dashboard''
   \<and> NavigateTo ''/'' \<noteq> NavigateTo ''/guest/dashboard''"
  by (simp add: App_def admin_path_def guest_path_def match_area_def admin_routes_def guest_routes_def
        area_element_def role_of_def admin_a1_def guest_g1_def)

text \<open>
  C6, amended. Route gating is a function of the session state, the role and the
  requested path such that, once the session is loaded: an unauthenticated request to a
  path of the admin or of the guest area redirects to \<^verbatim>\<open>/\<close>; an admin requesting a
  path of the guest area is redirected to \<^verbatim>\<open>/\<close>; a guest requesting a path of the
  admin area is redirected to \<^verbatim>\<open>/\<close>. While the session is loading, every request
  renders the spinner.
\<close>

theorem app_route_gating:
  "(as_loading au \<longrightarrow> App au location = AppSpinner)
   \<and> (\<not> as_loading au \<and> as_user au = None \<and> (admin_path location \<or> guest_path location)
        \<longrightarrow> App au location = NavigateTo ''/'')
   \<and> (\<not> as_loading au \<and> as_user au = Some usr \<and> role (u_profile usr) = ''admin''
        \<and> guest_path location
        \<longrightarrow> App au location = NavigateTo ''/'')
   \<and> (\<not> as_loading au \<and> as_user au = Some usr \<and> role (u_profile usr) = ''guest''
        \<and> admin_path location
        \<longrightarrow> App au location = NavigateTo ''/'')"
proof (intro conjI impI)
  assume "as_loading au"
  then show "App au location = AppSpinner" by (simp add: App_def)
next
  assume a: "\<not> as_loading au \<and> as_user au = None \<and> (admin_path location \<or> guest_path location)"
  then have r: "role_of au = None" by (simp add: role_of_def)
  from a consider "admin_path location" | "guest_path location" by blast
  then show "App au location = NavigateTo ''/''"
  proof cases
    case 1
    with a r show ?thesis by (simp add: App_admin_path area_element_def)
  next
    case 2
    with a r show ?thesis by (simp add: App_guest_path area_element_def)
  qed
next
  assume a: "\<not> as_loading au \<and> as_user au = Some usr \<and> role (u_profile usr) = ''admin''
        \<and> guest_path location"
  then have "role_of au = Some ''admin''" by (simp add: role_of_def)
  with a show "App au location = NavigateTo ''/''"
    by (simp add: App_guest_path area_element_def)
next
  assume a: "\<not> as_loading au \<and> as_user au = Some usr \<and> role (u_profile usr) = ''guest''
        \<and> admin_path location"
  then have "role_of au = Some ''guest''" by (simp add: role_of_def)
  with a show "App au location = NavigateTo ''/''"
    by (simp add: App_admin_path area_element_def)
qed

theorem app_route_gating_witness:
  "App \<lparr>as_user = Some admin_a1, as_loading = True\<rparr> [''guest'', ''orders''] = AppSpinner
   \<and> App \<lparr>as_user = None, as_loading = False\<rparr> [''admin'', ''rooms''] = NavigateTo ''/''
   \<and> App \<lparr>as_user = Some admin_a1, as_loading = False\<rparr> [''guest'', ''orders''] = NavigateTo ''/''
   \<and> App \<lparr>as_user = Some guest_g1, as_loading = False\<rparr> [''admin'', ''rooms''] = NavigateTo ''/''"
proof -
  have a: "admin_path [''admin'', ''rooms'']"
    by (simp add: admin_path_def match_area_def admin_routes_def)
  have g: "guest_path [''guest'', ''orders'']"
    by (simp add: guest_path_def match_area_def guest_routes_def)
  have ra: "role (u_profile admin_a1) = ''admin''" by (simp add: admin_a1_def)
  have rg: "role (u_profile guest_g1) = ''guest''" by (simp add: guest_g1_def)
  show ?thesis
    using app_route_gating [of "\<lparr>as_user = Some admin_a1, as_loading = True\<rparr>" "[''guest'', ''orders'']" admin_a1]
          app_route_gating [of "\<lparr>as_user = None, as_loading = False\<rparr>" "[''admin'', ''rooms'']" admin_a1]
          app_route_gating [of "\<lparr>as_user = Some admin_a1, as_loading = False\<rparr>" "[''guest'', ''orders'']" admin_a1]
          app_route_gating [of "\<lparr>as_user = Some guest_g1, as_loading = False\<rparr>" "[''admin'', ''rooms'']" guest_g1]
          a g ra rg
    by simp
qed

subsection \<open>Maintenance requests: the statuses written\<close>

lemma fetchMaintenanceRequests_calls:
  "snd (fetchMaintenanceRequests out db st) = [Select ''maintenance_requests'']"
  by (simp add: fetchMaintenanceRequests_def respond_def Let_def split: option.splits sum.splits)

lemma handleSubmit_writes:
  assumes "c \<in> set (snd (snd (handleSubmit out db usr now st)))"
    and "written_maintenance_status c = Some s"
  shows "s = ''pending''"
  using assms
  by (auto simp add: handleSubmit_def respond_def submit_failed_def written_maintenance_status_def
        Let_def split: option.splits sum.splits list.splits if_splits)

lemma handleUpdateStatus_writes:
  assumes "c \<in> set (snd (snd (handleUpdateStatus out db now st i newStatus)))"
    and "written_maintenance_status c = Some s"
  shows "s = newStatus"
  using assms fetchMaintenanceRequests_calls [of out]
  by (auto simp add: handleUpdateStatus_def written_maintenance_status_def Let_def split_beta
        split: option.splits if_splits)

lemma status_options_enumerated: "set status_options = enumerated_statuses"
  by (auto simp add: status_options_def enumerated_statuses_def)

lemma store_apply_maintenance_statuses:
  assumes "\<forall>m \<in> set (maintenance_requests db). m_status m \<in> S"
    and "\<forall>s. written_maintenance_status c = Some s \<longrightarrow> s \<in> S"
  shows "\<forall>m \<in> set (maintenance_requests (store_apply db c)). m_status m \<in> S"
  using assms
  by (auto simp add: store_apply_def written_maintenance_status_def maintenance_insert.extend_def
        maintenance_request.fields_def
        split: call.splits payload.splits key.splits if_splits)

lemma handleSubmit_store:
  "fst (handleSubmit out db usr now st) = db
   \<or> (\<exists>c \<in> set (snd (snd (handleSubmit out db usr now st))).
         fst (handleSubmit out db usr now st) = store_apply db c)"
  by (auto simp add: handleSubmit_def respond_def Let_def split: option.splits sum.splits list.splits)

lemma handleUpdateStatus_store:
  "fst (handleUpdateStatus out db now st i newStatus) = db
   \<or> (\<exists>c \<in> set (snd (snd (handleUpdateStatus out db now st i newStatus))).
         fst (handleUpdateStatus out db now st i newStatus) = store_apply db c)"
  by (auto simp add: handleUpdateStatus_def Let_def split_beta split: option.splits)

text \<open>
  C7. Every status the guest page writes to the maintenance requests is \<^verbatim>\<open>pending\<close>;
  every status the admin page writes, through the status selector of a row, is one of
  \<^verbatim>\<open>pending\<close>, \<^verbatim>\<open>in_progress\<close>, \<^verbatim>\<open>completed\<close>, \<^verbatim>\<open>cancelled\<close>. Hence if every
  stored request has a status of that set, so has every stored request after either
  handler.
\<close>

theorem maintenance_status_stays_enumerated:
  "(\<forall>c \<in> set (snd (snd (handleSubmit out db usr now st))).
      \<forall>s. written_maintenance_status c = Some s \<longrightarrow> s = ''pending'')
   \<and> (\<forall>r. status_onChange out db now ast request chosen = Some r \<longrightarrow>
         (\<forall>c \<in> set (snd (snd r)).
            \<forall>s. written_maintenance_status c = Some s \<longrightarrow> s \<in> enumerated_statuses))
   \<and> ((\<forall>m \<in> set (maintenance_requests db). m_status m \<in> enumerated_statuses) \<longrightarrow>
         (\<forall>m \<in> set (maintenance_requests (fst (handleSubmit out db usr now st))).
            m_status m \<in> enumerated_statuses)
       \<and> (\<forall>r. status_onChange out db now ast request chosen = Some r \<longrightarrow>
            (\<forall>m \<in> set (maintenance_requests (fst r)). m_status m \<in> enumerated_statuses)))"
proof (intro conjI impI allI ballI)
  fix c s
  assume "c \<in> set (snd (snd (handleSubmit out db usr now st)))"
    and "written_maintenance_status c = Some s"
  then show "s = ''pending''" by (rule handleSubmit_writes)
next
  fix r c s
  assume r: "status_onChange out db now ast request chosen = Some r"
    and c: "c \<in> set (snd (snd r))" and s: "written_maintenance_status c = Some s"
  from r have lt: "chosen < length status_options"
    and r': "r = handleUpdateStatus out db now ast (m_id request) (status_options ! chosen)"
    by (auto simp add: status_onChange_def split: if_splits)
  from c s have "s = status_options ! chosen"
    unfolding r' by (rule handleUpdateStatus_writes)
  with lt have "s \<in> set status_options" by simp
  then show "s \<in> enumerated_statuses" by (simp add: status_options_enumerated)
next
  fix m
  assume inv: "\<forall>m \<in> set (maintenance_requests db). m_status m \<in> enumerated_statuses"
    and m: "m \<in> set (maintenance_requests (fst (handleSubmit out db usr now st)))"
  have w: "\<forall>s. written_maintenance_status c = Some s \<longrightarrow> s \<in> enumerated_statuses"
    if "c \<in> set (snd (snd (handleSubmit out db usr now st)))" for c
    using handleSubmit_writes [OF that] by (auto simp add: enumerated_statuses_def)
  from handleSubmit_store [of out db usr now st] inv m w
  show "m_status m \<in> enumerated_statuses"
    using store_apply_maintenance_statuses [OF inv] by metis
next
  fix r m
  assume inv: "\<forall>m \<in> set (maintenance_requests db). m_status m \<in> enumerated_statuses"
    and r: "status_onChange out db now ast request chosen = Some r"
    and m: "m \<in> set (maintenance_requests (fst r))"
  from r have lt: "chosen < length status_options"
    and r': "r = handleUpdateStatus out db now ast (m_id request) (status_options ! chosen)"
    by (auto simp add: status_onChange_def split: if_splits)
  from lt have e: "status_options ! chosen \<in> enumerated_statuses"
    using status_options_enumerated nth_mem by blast
  have w: "\<forall>s. written_maintenance_status c = Some s \<longrightarrow> s \<in> enumerated_statuses"
    if "c \<in> set (snd (snd r))" for c
    using handleUpdateStatus_writes that e unfolding r' by blast
  from handleUpdateStatus_store [of out db now ast "m_id request" "status_options ! chosen"] inv m w
  show "m_status m \<in> enumerated_statuses"
    unfolding r' using store_apply_maintenance_statuses [OF inv] by metis
qed

theorem maintenance_status_stays_enumerated_witness:
  "map written_maintenance_status
       (snd (snd (handleSubmit all_succeed store_with_request (Some guest_g1) 1000 example_form)))
     = [None, Some ''pending'']
   \<and> map m_status (maintenance_requests
         (fst (handleSubmit all_succeed store_with_request (Some guest_g1) 1000 example_form)))
     = [''pending'', ''pending'']
   \<and> map_option (\<lambda>r. map m_status (maintenance_requests (fst r)))
         (status_onChange all_succeed store_with_request 1000 admin_table example_request 1)
     = Some [''in_progress'']
   \<and> status_onChange all_succeed store_with_request 1000 admin_table example_request 4 = None"
  using maintenance_status_stays_enumerated
          [of all_succeed store_with_request "Some guest_g1" 1000 example_form admin_table
              example_request 1]
  by (simp add: handleSubmit_def status_onChange_def handleUpdateStatus_def
        fetchMaintenanceRequests_def respond_def all_succeed_def store_with_request_def
        store_with_approved_def example_store_def approved_booking_def pending_booking_def
        guest_g1_def example_form_def example_request_def admin_table_def status_options_def
        store_apply_def written_maintenance_status_def order_desc_def limit_def
        maintenance_insert.extend_def maintenance_request.fields_def fresh_id_def
        Let_def split_beta)

subsection \<open>Food ordering: the room of the order\<close>

lemma with_room_mem:
  assumes "(b, rm) \<in> set (List.map_filter (with_room db) bs)"
  shows "b \<in> set bs \<and> rm \<in> set (rooms db) \<and> r_id rm = b_room_id b"
proof -
  from assms obtain b' where b': "b' \<in> set bs" and w: "with_room db b' = Some (b, rm)"
    by (auto simp add: List.map_filter_def)
  from w obtain r where f: "find (\<lambda>r. r_id r = b_room_id b') (rooms db) = Some r"
    and eq: "(b', r) = (b, rm)"
    by (auto simp add: with_room_def)
  from f have "r \<in> set (rooms db) \<and> r_id r = b_room_id b'"
    by (auto simp add: find_Some_iff)
  with b' eq show ?thesis by auto
qed

lemma checkout_booking_query_found:
  assumes "checkout_booking_query db uid today = Inr (b, rm)"
  shows "b \<in> set (bookings db) \<and> b_guest_id b = uid \<and> b_status b = ''approved''
       \<and> today \<le> check_out_date b \<and> rm \<in> set (rooms db) \<and> r_id rm = b_room_id b"
proof -
  from assms have "(b, rm) \<in> set (List.map_filter (with_room db)
          (filter (\<lambda>b. b_guest_id b = uid \<and> b_status b = ''approved'' \<and> today \<le> check_out_date b)
             (bookings db)))"
    unfolding checkout_booking_query_def by (rule single_Inr_mem)
  from with_room_mem [OF this] show ?thesis by auto
qed

lemma checkout_booking_query_none:
  assumes "\<not> (\<exists>b \<in> set (bookings db). b_guest_id b = uid \<and> b_status b = ''approved''
                 \<and> today \<le> check_out_date b)"
  shows "\<exists>e. checkout_booking_query db uid today = Inl e"
proof (cases "checkout_booking_query db uid today")
  case (Inl e)
  then show ?thesis by blast
next
  case (Inr p)
  then have "checkout_booking_query db uid today = Inr (fst p, snd p)" by simp
  from checkout_booking_query_found [OF this] assms show ?thesis by blast
qed

lemma handleCheckout_no_lookup:
  assumes "respond out (Select ''bookings'') (checkout_booking_query db (u_id usr) today) = Inl e"
  shows "handleCheckout out db (Some usr) today st
           = (db, st\<lparr>fo_error := Some ''Could not check your booking status''\<rparr>,
              [Select ''bookings''], None, None)"
  using assms by (simp add: handleCheckout_def Let_def)

lemma handleCheckout_found:
  assumes "respond out (Select ''bookings'') (checkout_booking_query db (u_id usr) today) = Inr (b, rm)"
  shows "fst (snd (snd (handleCheckout out db (Some usr) today st)))
           = [Select ''bookings'', Insert ''food_orders'' (FoodOrderRow (orderData usr b (cart st)))]"
  using assms by (simp add: handleCheckout_def Let_def split: option.splits)

lemma respond_Inr:
  "respond out c r = Inr x \<longleftrightarrow> out c = None \<and> r = Inr x"
  by (simp add: respond_def split: option.splits)

text \<open>
  C8. Every order the checkout inserts goes to \<^verbatim>\<open>food_orders\<close> and carries the id of
  the guest and the room id of a booking of that guest with status \<^verbatim>\<open>approved\<close> and a
  check-out date not before today; when the lookup answers with such a booking, the order
  with the room id of that booking is inserted right after the lookup. If there is no
  user, or the guest has no such booking, or the lookup fails, an error is shown, no
  insert is issued and the store is unchanged.
\<close>

theorem checkout_room_is_active_booking_room:
  "(\<forall>t row. Insert t (FoodOrderRow row) \<in> set (fst (snd (snd (handleCheckout out db usr_opt today st))))
      \<longrightarrow> t = ''food_orders''
        \<and> (\<exists>usr b. usr_opt = Some usr \<and> b \<in> set (bookings db) \<and> b_guest_id b = u_id usr
              \<and> b_status b = ''approved'' \<and> today \<le> check_out_date b
              \<and> fo_guest_id row = u_id usr \<and> fo_room_id row = b_room_id b))
   \<and> (\<forall>usr b rm. usr_opt = Some usr \<and> out (Select ''bookings'') = None
          \<and> checkout_booking_query db (u_id usr) today = Inr (b, rm)
      \<longrightarrow> fst (snd (snd (handleCheckout out db usr_opt today st)))
            = [Select ''bookings'', Insert ''food_orders'' (FoodOrderRow (orderData usr b (cart st)))]
        \<and> fo_room_id (orderData usr b (cart st)) = b_room_id b)
   \<and> ((usr_opt = None
        \<or> (\<exists>usr. usr_opt = Some usr
              \<and> \<not> (\<exists>b \<in> set (bookings db). b_guest_id b = u_id usr \<and> b_status b = ''approved''
                       \<and> today \<le> check_out_date b))
        \<or> out (Select ''bookings'') \<noteq> None)
      \<longrightarrow> fo_error (fst (snd (handleCheckout out db usr_opt today st))) \<noteq> None
        \<and> (\<forall>c \<in> set (fst (snd (snd (handleCheckout out db usr_opt today st)))).
              \<forall>t row. c \<noteq> Insert t row)
        \<and> fst (handleCheckout out db usr_opt today st) = db)"
proof (intro conjI allI impI)
  fix t row
  assume ins: "Insert t (FoodOrderRow row)
                 \<in> set (fst (snd (snd (handleCheckout out db usr_opt today st))))"
  then obtain usr where u: "usr_opt = Some usr"
    by (cases usr_opt) (auto simp add: handleCheckout_def)
  show "t = ''food_orders''"
    using ins unfolding u
    by (auto simp add: handleCheckout_def Let_def split: sum.splits option.splits)
  obtain b rm where q: "respond out (Select ''bookings'') (checkout_booking_query db (u_id usr) today)
                          = Inr (b, rm)"
    using ins unfolding u
    by (cases "respond out (Select ''bookings'') (checkout_booking_query db (u_id usr) today)")
       (auto simp add: handleCheckout_def Let_def)
  then have f: "checkout_booking_query db (u_id usr) today = Inr (b, rm)"
    by (simp add: respond_Inr)
  from ins have "row = orderData usr b (cart st)"
    unfolding u using handleCheckout_found [OF q, of st] by simp
  then have "fo_guest_id row = u_id usr \<and> fo_room_id row = b_room_id b"
    by (simp add: orderData_def)
  with checkout_booking_query_found [OF f] u
  show "\<exists>usr b. usr_opt = Some usr \<and> b \<in> set (bookings db) \<and> b_guest_id b = u_id usr
              \<and> b_status b = ''approved'' \<and> today \<le> check_out_date b
              \<and> fo_guest_id row = u_id usr \<and> fo_room_id row = b_room_id b"
    by blast
next
  fix usr b rm
  assume a: "usr_opt = Some usr \<and> out (Select ''bookings'') = None
          \<and> checkout_booking_query db (u_id usr) today = Inr (b, rm)"
  then have "respond out (Select ''bookings'') (checkout_booking_query db (u_id usr) today) = Inr (b, rm)"
    by (simp add: respond_Inr)
  from handleCheckout_found [OF this, of st] a
  show "fst (snd (snd (handleCheckout out db usr_opt today st)))
            = [Select ''bookings'', Insert ''food_orders'' (FoodOrderRow (orderData usr b (cart st)))]"
    by simp
  show "fo_room_id (orderData usr b (cart st)) = b_room_id b"
    by (simp add: orderData_def)
next
  assume a: "usr_opt = None
        \<or> (\<exists>usr. usr_opt = Some usr
              \<and> \<not> (\<exists>b \<in> set (bookings db). b_guest_id b = u_id usr \<and> b_status b = ''approved''
                       \<and> today \<le> check_out_date b))
        \<or> out (Select ''bookings'') \<noteq> None"
  have "usr_opt = None \<or> (\<exists>usr e. usr_opt = Some usr
          \<and> respond out (Select ''bookings'') (checkout_booking_query db (u_id usr) today) = Inl e)"
  proof (cases usr_opt)
    case None
    then show ?thesis by simp
  next
    case (Some usr)
    show ?thesis
    proof (cases "out (Select ''bookings'')")
      case (Some e)
      then have "respond out (Select ''bookings'') (checkout_booking_query db (u_id usr) today) = Inl e"
        by (simp add: respond_def)
      with \<open>usr_opt = Some usr\<close> show ?thesis by blast
    next
      case None
      with a \<open>usr_opt = Some usr\<close>
      have "\<not> (\<exists>b \<in> set (bookings db). b_guest_id b = u_id usr \<and> b_status b = ''approved''
                       \<and> today \<le> check_out_date b)" by auto
      from checkout_booking_query_none [OF this] None \<open>usr_opt = Some usr\<close>
      show ?thesis by (auto simp add: respond_def)
    qed
  qed
  then have r: "handleCheckout out db usr_opt today st
                  = (db, st\<lparr>fo_error := Some ''Please sign in to place an order''\<rparr>, [], None, None)
              \<or> handleCheckout out db usr_opt today st
                  = (db, st\<lparr>fo_error := Some ''Could not check your booking status''\<rparr>,
                     [Select ''bookings''], None, None)"
    using handleCheckout_no_lookup by (auto simp add: handleCheckout_def)
  then show "fo_error (fst (snd (handleCheckout out db usr_opt today st))) \<noteq> None" by auto
  from r show "\<forall>c \<in> set (fst (snd (snd (handleCheckout out db usr_opt today st)))).
              \<forall>t row. c \<noteq> Insert t row" by auto
  from r show "fst (handleCheckout out db usr_opt today st) = db" by auto
qed

theorem checkout_room_is_active_booking_room_witness:
  "fst (snd (snd (handleCheckout all_succeed store_with_approved (Some guest_g1) 21 example_order_page)))
     = [Select ''bookings'',
        Insert ''food_orders'' (FoodOrderRow (orderData guest_g1 approved_booking example_cart))]
   \<and> fo_room_id (orderData guest_g1 approved_booking example_cart) = ''r101''
   \<and> total_amount (orderData guest_g1 approved_booking example_cart) = 12
   \<and> fst (snd (snd (handleCheckout all_succeed example_store (Some guest_g1) 21 example_order_page)))
     = [Select ''bookings'']
   \<and> fo_error (fst (snd (handleCheckout all_succeed example_store (Some guest_g1) 21 example_order_page)))
     = Some ''Could not check your booking status''"
proof -
  have q: "checkout_booking_query store_with_approved (u_id guest_g1) 21 = Inr (approved_booking, room_101)"
    by (simp add: checkout_booking_query_def store_with_approved_def example_store_def
          approved_booking_def pending_booking_def guest_g1_def room_101_def with_room_def
          List.map_filter_def single_def limit_def order_desc_def)
  have ok: "all_succeed (Select ''bookings'') = None"
    by (simp add: all_succeed_def)
  have n: "checkout_booking_query example_store (u_id guest_g1) 21 = Inl no_rows"
    by (simp add: checkout_booking_query_def example_store_def pending_booking_def guest_g1_def
          List.map_filter_def single_def limit_def order_desc_def)
  have e: "handleCheckout all_succeed example_store (Some guest_g1) 21 example_order_page
             = (example_store, example_order_page\<lparr>fo_error := Some ''Could not check your booking status''\<rparr>,
                [Select ''bookings''], None, None)"
    by (simp add: handleCheckout_def respond_def ok n Let_def)
  have r: "b_room_id approved_booking = ''r101''"
    by (simp add: approved_booking_def pending_booking_def)
  have t: "total_amount (orderData guest_g1 approved_booking example_cart) = 12"
    by (simp add: orderData_def calculateTotal_def example_cart_def)
  note found = checkout_room_is_active_booking_room
      [of all_succeed store_with_approved "Some guest_g1" 21 example_order_page,
       THEN conjunct2, THEN conjunct1, rule_format, of guest_g1 approved_booking room_101]
  have c: "fst (snd (snd (handleCheckout all_succeed store_with_approved (Some guest_g1) 21
                            example_order_page)))
             = [Select ''bookings'',
                Insert ''food_orders'' (FoodOrderRow (orderData guest_g1 approved_booking (cart example_order_page)))]
         \<and> fo_room_id (orderData guest_g1 approved_booking (cart example_order_page))
             = b_room_id approved_booking"
    by (rule found) (simp add: ok q)
  have k: "cart example_order_page = example_cart"
    by (simp add: example_order_page_def)
  have m: "fo_error (fst (snd (handleCheckout all_succeed example_store (Some guest_g1) 21
                                 example_order_page)))
             = Some ''Could not check your booking status''"
    unfolding e by simp
  have l: "fst (snd (snd (handleCheckout all_succeed example_store (Some guest_g1) 21
                            example_order_page))) = [Select ''bookings'']"
    unfolding e by simp
  from c show ?thesis
    unfolding k r by (simp only: m l t simp_thms)
qed

end
